theory Spec2Isabelle
  imports Complex_Main "HOL-Library.Monad_Syntax" "HOL-Library.AList"
begin

section \<open>JavaScript strings and numbers\<close>

text \<open>
  The repository is TypeScript. A JavaScript string is modelled as a \<^typ>\<open>string\<close>: each
  \<^typ>\<open>char\<close> stands for one code unit below 256 (the Latin-1 range); code units above
  that range are outside the model. A JavaScript number is modelled by its exact
  mathematical value: \<open>Fin q\<close> for a finite number with value \<open>q\<close> (the rounding of a
  decimal literal to the nearest double is not modelled, and \<open>Fin 0\<close> stands for both
  zeros), \<open>PosInf\<close> and \<open>NegInf\<close> for the infinities, and \<open>NaN\<close>.
\<close>

datatype jsnum = NaN | PosInf | NegInf | Fin rat

definition isWhiteSpace :: "char \<Rightarrow> bool" where
  \<comment> \<open>the code units below 256 that \<open>trim\<close>, \<open>\s\<close> and the number parsers skip:
      TAB, LF, VT, FF, CR, SPACE, NBSP\<close>
  "isWhiteSpace c \<longleftrightarrow> c \<in> set [CHR 0x09, CHR 0x0A, CHR 0x0B, CHR 0x0C, CHR 0x0D, CHR 0x20, CHR 0xA0]"

definition isDigit :: "char \<Rightarrow> bool" where
  "isDigit c \<longleftrightarrow> c \<in> set ''0123456789''"

definition digitValue :: "char \<Rightarrow> nat" where
  "digitValue c = of_char c - 48"

definition digitsValue :: "string \<Rightarrow> nat" where
  "digitsValue ds = foldl (\<lambda>a c. 10 * a + digitValue c) 0 ds"

definition trimStart :: "string \<Rightarrow> string" where
  "trimStart s = dropWhile isWhiteSpace s"

definition trim :: "string \<Rightarrow> string" where
  "trim s = rev (dropWhile isWhiteSpace (rev (dropWhile isWhiteSpace s)))"

definition lowerChar :: "char \<Rightarrow> char" where
  "lowerChar c =
     (let n = (of_char c :: nat)
      in if (65 \<le> n \<and> n \<le> 90) \<or> (192 \<le> n \<and> n \<le> 222 \<and> n \<noteq> 215)
         then char_of (n + 32) else c)"

definition toLowerCase :: "string \<Rightarrow> string" where
  "toLowerCase s = map lowerChar s"

definition endsWith :: "string \<Rightarrow> string \<Rightarrow> bool" where
  "endsWith s suffix \<longleftrightarrow>
     length suffix \<le> length s \<and> drop (length s - length suffix) s = suffix"

definition startsWith :: "string \<Rightarrow> string \<Rightarrow> bool" where
  "startsWith s p \<longleftrightarrow> take (length p) s = p"

text \<open>
  \<open>s.replace(pat, repl)\<close> with a string pattern replaces the first occurrence only.
  (The replacement strings used in this code contain no \<open>$\<close> pattern.)
\<close>

fun replaceFirst :: "string \<Rightarrow> string \<Rightarrow> string \<Rightarrow> string" where
  "replaceFirst pat repl [] = (if pat = [] then repl else [])"
| "replaceFirst pat repl (c # cs) =
     (if startsWith (c # cs) pat then repl @ drop (length pat) (c # cs)
      else c # replaceFirst pat repl cs)"

text \<open>
  \<open>parseFloat(s)\<close>: skip leading white space, then read the longest prefix that is a
  decimal literal: an optional sign, then \<open>Infinity\<close> or digits with an optional
  fraction and an optional exponent. No such prefix gives \<open>NaN\<close>.
\<close>

definition exponentPart :: "string \<Rightarrow> int" where
  \<comment> \<open>the value of an exponent part \<open>e[+-]?digits\<close> at the head of the string, 0 if there is none\<close>
  "exponentPart r =
     (case r of
        [] \<Rightarrow> 0
      | c # r1 \<Rightarrow>
          if c = CHR ''e'' \<or> c = CHR ''E'' then
            (let (neg, r2) =
                   (case r1 of
                      [] \<Rightarrow> (False, r1)
                    | d # r3 \<Rightarrow> if d = CHR ''-'' then (True, r3)
                               else if d = CHR ''+'' then (False, r3) else (False, r1));
                 ds = takeWhile isDigit r2
             in if ds = [] then 0
                else if neg then - int (digitsValue ds) else int (digitsValue ds))
          else 0)"

definition unsignedDecimal :: "string \<Rightarrow> rat option" where
  "unsignedDecimal r =
     (let ints = takeWhile isDigit r;
          r1 = dropWhile isDigit r;
          fracs = (case r1 of [] \<Rightarrow> [] | c # r2 \<Rightarrow> if c = CHR ''.'' then takeWhile isDigit r2 else []);
          r3 = (case r1 of [] \<Rightarrow> [] | c # r2 \<Rightarrow> if c = CHR ''.'' then dropWhile isDigit r2 else r1)
      in if ints = [] \<and> fracs = [] then None
         else Some ((of_nat (digitsValue ints) + of_nat (digitsValue fracs) / 10 ^ length fracs)
                    * 10 powi exponentPart r3))"

definition parseFloat :: "string \<Rightarrow> jsnum" where
  "parseFloat s =
     (let t = trimStart s;
          (neg, r) =
            (case t of
               [] \<Rightarrow> (False, t)
             | c # r1 \<Rightarrow> if c = CHR ''-'' then (True, r1)
                        else if c = CHR ''+'' then (False, r1) else (False, t))
      in if startsWith r ''Infinity'' then (if neg then NegInf else PosInf)
         else (case unsignedDecimal r of
                 None \<Rightarrow> NaN
               | Some q \<Rightarrow> Fin (if neg then - q else q)))"

text \<open>
  \<open>parseInt(s, 10)\<close>: skip leading white space, an optional sign, then the longest
  prefix of decimal digits. No digit gives \<open>NaN\<close>.
\<close>

definition parseInt10 :: "string \<Rightarrow> jsnum" where
  "parseInt10 s =
     (let t = trimStart s;
          (neg, r) =
            (case t of
               [] \<Rightarrow> (False, t)
             | c # r1 \<Rightarrow> if c = CHR ''-'' then (True, r1)
                        else if c = CHR ''+'' then (False, r1) else (False, t));
          ds = takeWhile isDigit r
      in if ds = [] then NaN
         else Fin (if neg then - of_nat (digitsValue ds) else of_nat (digitsValue ds)))"

definition mathRound :: "jsnum \<Rightarrow> jsnum" where
  \<comment> \<open>\<open>Math.round\<close>: the nearest integer, a tie going up\<close>
  "mathRound x = (case x of Fin q \<Rightarrow> Fin (of_int \<lfloor>q + 1 / 2\<rfloor>) | _ \<Rightarrow> x)"

definition timesConst :: "jsnum \<Rightarrow> rat \<Rightarrow> jsnum" where
  \<comment> \<open>\<open>x * c\<close> for a positive finite constant \<open>c\<close>\<close>
  "timesConst x c = (case x of Fin q \<Rightarrow> Fin (q * c) | _ \<Rightarrow> x)"

definition numTruthy :: "jsnum \<Rightarrow> bool" where
  \<comment> \<open>a number is falsy exactly when it is a zero or \<open>NaN\<close>\<close>
  "numTruthy x \<longleftrightarrow> x \<noteq> NaN \<and> x \<noteq> Fin 0"

section \<open>Normalization helpers (helpers.ts)\<close>

definition parsePrice :: "string option \<Rightarrow> jsnum option" where
  \<comment> \<open>the argument \<open>None\<close> is \<open>undefined\<close> or \<open>null\<close>; the result \<open>None\<close> is \<open>undefined\<close>\<close>
  "parsePrice priceStr =
     (case priceStr of
        None \<Rightarrow> None
      | Some p \<Rightarrow>
          if p = [] then None
          else
            (let cleaned = replaceFirst '','' ''.'' (filter (\<lambda>c. c \<in> set ''0123456789.,'') p);
                 price = parseFloat cleaned
             in if price = NaN then None else Some price))"

definition parseAbbreviatedNumber :: "string \<Rightarrow> jsnum" where
  "parseAbbreviatedNumber str =
     (let cleaned = trim (toLowerCase str)
      in if endsWith cleaned ''k'' then
           mathRound (timesConst (parseFloat (replaceFirst ''k'' '''' cleaned)) 1000)
         else if endsWith cleaned ''m'' then
           mathRound (timesConst (parseFloat (replaceFirst ''m'' '''' cleaned)) 1000000)
         else if endsWith cleaned ''b'' then
           mathRound (timesConst (parseFloat (replaceFirst ''b'' '''' cleaned)) 1000000000)
         else
           (let n = parseInt10 (filter (\<lambda>c. c \<noteq> CHR '','' \<and> c \<noteq> CHR ''.'' \<and> \<not> isWhiteSpace c) cleaned)
            in if numTruthy n then n else Fin 0))"

definition isAsciiLetter :: "char \<Rightarrow> bool" where
  "isAsciiLetter c \<longleftrightarrow> c \<in> set ''abcdefghijklmnopqrstuvwxyzABCDEFGHIJKLMNOPQRSTUVWXYZ''"

function collapseWhiteSpace :: "string \<Rightarrow> string" where
  \<comment> \<open>\<open>text.replace(/\s+/g, ' ')\<close>: every maximal run of white space becomes one space\<close>
  "collapseWhiteSpace [] = []"
| "collapseWhiteSpace (c # cs) =
     (if isWhiteSpace c then CHR '' '' # collapseWhiteSpace (dropWhile isWhiteSpace cs)
      else c # collapseWhiteSpace cs)"
  by pat_completeness auto
termination
  by (relation "measure length") (auto simp: less_Suc_eq_le length_dropWhile_le)

definition cleanText :: "string \<Rightarrow> string" where
  "cleanText text = trim (collapseWhiteSpace text)"

section \<open>Built-ins taken as parameters\<close>

text \<open>
  The regular expressions of the source are named, not interpreted: the regular-expression
  engine is a parameter of the model, and so are \<open>JSON.parse\<close>, the \<open>URL\<close> parser and
  the conversion of a number to a string. The constructors below name the patterns in
  the order in which the source writes them.

  helpers.ts: \<open>Re_title\<close> is \<open>/<title[^>]*>([^<]+)<\/title>/i\<close> (also used by generic.ts),
  \<open>Re_meta_name_content\<close> and \<open>Re_meta_content_name\<close> are \<open>metaRegex\<close> and
  \<open>metaRegex2\<close>, \<open>Re_jsonld\<close> is \<open>jsonLdRegex\<close>.

  amazon.ts: \<open>Re_asin\<close> (on the URL), \<open>Re_productTitle\<close>, \<open>Re_priceWhole\<close>,
  \<open>Re_priceFraction\<close>, the five \<open>pricePatterns\<close> (\<open>Re_price_offscreen\<close>,
  \<open>Re_price_ourprice\<close>, \<open>Re_price_dealprice\<close>, \<open>Re_price_saleprice\<close>, \<open>Re_price_aprice\<close>),
  \<open>Re_originalPrice\<close>, \<open>Re_discount\<close>, the three \<open>stockPatterns\<close>, the four
  \<open>outOfStockPatterns\<close>, \<open>Re_rating\<close>, the two \<open>reviewPatterns\<close>, the three
  \<open>brandPatterns\<close>, \<open>Re_seller\<close>, \<open>Re_soldBy\<close>, \<open>Re_prime\<close>, \<open>Re_deal\<close>, \<open>Re_coupon\<close>,
  \<open>Re_bsr\<close>, \<open>Re_delivery\<close> and the three \<open>imagePatterns\<close>.

  generic.ts: the six block removals of \<open>extractMainContent\<close> (\<open>Re_script\<close> to
  \<open>Re_aside\<close>), its four \<open>mainPatterns\<close> and \<open>Re_anyTag\<close>, which is \<open>/<[^>]+>/g\<close>.

  ebay.ts: \<open>Re_condition\<close> is \<open>/(\w+)Condition/\<close>.
\<close>

datatype regex =
    Re_title | Re_meta_name_content | Re_meta_content_name | Re_jsonld
  | Re_asin | Re_productTitle | Re_priceWhole | Re_priceFraction
  | Re_price_offscreen | Re_price_ourprice | Re_price_dealprice | Re_price_saleprice
  | Re_price_aprice
  | Re_originalPrice | Re_discount
  | Re_stock_success | Re_stock_availability | Re_stock_message
  | Re_oos_unavailable | Re_oos_outOfStock | Re_oos_notAvailable | Re_oos_dontKnow
  | Re_rating | Re_review_acr | Re_review_any
  | Re_brand_link | Re_brand_byline | Re_brand_po
  | Re_seller | Re_soldBy | Re_prime | Re_deal | Re_coupon | Re_bsr | Re_delivery
  | Re_image_landing | Re_image_blkFront | Re_image_dynamic
  | Re_script | Re_style | Re_nav | Re_header | Re_footer | Re_aside
  | Re_main | Re_article | Re_div_content_class | Re_div_content_id | Re_anyTag
  | Re_condition

text \<open>
  A JavaScript value, as \<open>JSON.parse\<close> and the extraction routines produce them. An
  object is the association list of its own properties in the order of
  \<open>Object.entries\<close>, with distinct keys.
\<close>

datatype jsval =
    JUndefined | JNull | JBool bool | JNum jsnum | JStr string
  | JArr "jsval list" | JObj "(string \<times> jsval) list"

type_synonym jsobj = "(string \<times> jsval) list"

text \<open>
  A match of a regular expression is the function from a group index to the text of that
  group (index 0 is the whole match): every capture group that this code reads takes
  part in every match of its pattern, so a group is always a string.
\<close>

type_synonym rematch = "nat \<Rightarrow> string"

record engine =
  re_exec :: "regex \<Rightarrow> string \<Rightarrow> rematch option"
  re_exec_all :: "regex \<Rightarrow> string \<Rightarrow> rematch list"
  re_replace_all :: "regex \<Rightarrow> string \<Rightarrow> string \<Rightarrow> string"
  json_parse :: "string \<Rightarrow> jsval option"
  url_hostname :: "string \<Rightarrow> string option"
  number_to_string :: "jsnum \<Rightarrow> string"
  high_code_unit :: "nat \<Rightarrow> string"

text \<open>
  \<open>re_exec E re s\<close> is \<open>s.match(re)\<close> and \<open>re.exec(s)\<close> for a pattern without the \<open>g\<close>
  flag: the first match, or \<open>None\<close> for \<open>null\<close>. \<open>re_exec_all E re s\<close> lists the successive
  results of \<open>re.exec(s)\<close> for a pattern with the \<open>g\<close> flag, up to the first \<open>null\<close>.
  \<open>re_replace_all E re s r\<close> is \<open>s.replace(re, r)\<close> for a pattern with the \<open>g\<close> flag.
  \<open>json_parse E s\<close> is \<open>JSON.parse(s)\<close>, \<open>None\<close> when it throws. \<open>url_hostname E u\<close> is
  \<open>new URL(u).hostname\<close>, \<open>None\<close> when the constructor throws. \<open>number_to_string\<close>
  converts a number to a string, and \<open>high_code_unit E u\<close> is the string of the one code
  unit \<open>u\<close> when \<open>u\<close> is 256 or more, which \<^typ>\<open>char\<close> cannot hold.
\<close>

definition re_test :: "engine \<Rightarrow> regex \<Rightarrow> string \<Rightarrow> bool" where
  "re_test E re s \<longleftrightarrow> re_exec E re s \<noteq> None"

subsection \<open>Entity decoding and domain extraction\<close>

definition fromCharCode :: "engine \<Rightarrow> nat \<Rightarrow> string" where
  "fromCharCode E code =
     (let u = code mod 65536 in if u < 256 then [char_of u] else high_code_unit E u)"

definition entities :: "(string \<times> string) list" where
  "entities =
     [(''&amp;'', ''&''), (''&lt;'', ''<''), (''&gt;'', ''>''), (''&quot;'', [CHR 0x22]),
      (''&#39;'', [CHR 0x27]), (''&nbsp;'', '' '')]"

definition entityAt :: "string \<Rightarrow> nat option" where
  \<comment> \<open>the length of a match of \<open>/&[a-z]+;|&#\d+;/i\<close> that starts at the head of the string\<close>
  "entityAt s =
     (case s of
        [] \<Rightarrow> None
      | c # r \<Rightarrow>
          if c \<noteq> CHR ''&'' then None
          else
            (let letters = takeWhile isAsciiLetter r
             in if letters \<noteq> [] \<and> take 1 (dropWhile isAsciiLetter r) = '';''
                then Some (length letters + 2)
                else
                  (case r of
                     [] \<Rightarrow> None
                   | h # r1 \<Rightarrow>
                       if h = CHR ''#'' \<and> takeWhile isDigit r1 \<noteq> []
                          \<and> take 1 (dropWhile isDigit r1) = '';''
                       then Some (length (takeWhile isDigit r1) + 3)
                       else None)))"

definition decodeEntity :: "engine \<Rightarrow> string \<Rightarrow> string" where
  \<comment> \<open>the replacement callback of \<open>decodeHtmlEntities\<close>\<close>
  "decodeEntity E m =
     (case map_of entities m of
        Some r \<Rightarrow> r
      | None \<Rightarrow>
          if startsWith m ''&#''
          then fromCharCode E (digitsValue (takeWhile isDigit (drop 2 (butlast m))))
          else m)"

fun decodeFrom :: "engine \<Rightarrow> nat \<Rightarrow> string \<Rightarrow> string" where
  \<comment> \<open>the scan of \<open>text.replace(/&[a-z]+;|&#\d+;/gi, callback)\<close>; the number counts the
      characters of the current match that are still to be skipped\<close>
  "decodeFrom E k [] = []"
| "decodeFrom E (Suc k) (c # cs) = decodeFrom E k cs"
| "decodeFrom E 0 (c # cs) =
     (case entityAt (c # cs) of
        Some n \<Rightarrow> decodeEntity E (take n (c # cs)) @ decodeFrom E (n - 1) cs
      | None \<Rightarrow> c # decodeFrom E 0 cs)"

definition decodeHtmlEntities :: "engine \<Rightarrow> string \<Rightarrow> string" where
  "decodeHtmlEntities E text = decodeFrom E 0 text"

definition extractDomain :: "engine \<Rightarrow> string \<Rightarrow> string" where
  "extractDomain E url =
     (case url_hostname E url of
        None \<Rightarrow> ''''
      | Some hostname \<Rightarrow> replaceFirst ''www.'' '''' hostname)"

text \<open>
  The names of three expressions of the helpers, used to state their properties:
  \<open>cleanedPrice\<close> is the local \<open>cleaned\<close> of \<open>parsePrice\<close>; \<open>hasMagnitudeSuffix\<close> says that one
  of the three \<open>endsWith\<close> tests of \<open>parseAbbreviatedNumber\<close> succeeds; \<open>plainDigits\<close> is the
  argument of \<open>parseInt\<close> in its last line.
\<close>

definition cleanedPrice :: "string \<Rightarrow> string" where
  "cleanedPrice p = replaceFirst '','' ''.'' (filter (\<lambda>c. c \<in> set ''0123456789.,'') p)"

definition hasMagnitudeSuffix :: "string \<Rightarrow> bool" where
  "hasMagnitudeSuffix str \<longleftrightarrow>
     endsWith (trim (toLowerCase str)) ''k'' \<or> endsWith (trim (toLowerCase str)) ''m''
     \<or> endsWith (trim (toLowerCase str)) ''b''"

definition plainDigits :: "string \<Rightarrow> string" where
  "plainDigits str =
     filter (\<lambda>c. c \<noteq> CHR '','' \<and> c \<noteq> CHR ''.'' \<and> \<not> isWhiteSpace c) (trim (toLowerCase str))"

definition noMatchEngine :: engine where
  \<comment> \<open>the built-ins as they answer on a payload in which no pattern of the source matches and
      on arguments that are neither JSON text nor a URL\<close>
  "noMatchEngine =
     \<lparr> re_exec = (\<lambda>re s. None), re_exec_all = (\<lambda>re s. []),
       re_replace_all = (\<lambda>re s r. s), json_parse = (\<lambda>s. None),
       url_hostname = (\<lambda>u. None), number_to_string = (\<lambda>n. ''NaN''),
       high_code_unit = (\<lambda>u. ''?'') \<rparr>"

section \<open>Recipes (types.ts)\<close>

text \<open>
  The interfaces of types.ts as records; an optional attribute (\<open>?\<close>) has an option
  type. A string attribute is falsy exactly when it is empty. The \<open>RegExp\<close> of a recipe
  carries its source text and its \<open>test\<close>, a pure predicate (no bundled pattern has the
  \<open>g\<close> or \<open>y\<close> flag); a predicate function is a total function on URLs. What an
  extraction routine's promise settles to is either a thrown value (\<open>Inl\<close>) or the value
  it returns (\<open>Inr\<close>). The attribute \<open>fields\<close> of a recipe is named \<open>recipeFields\<close>
  (the record package reserves \<open>fields\<close>), its list is in the order of \<open>Object.entries\<close>;
  the attribute \<open>extract\<close> is named \<open>extractFn\<close> (\<open>extract\<close> is a keyword).
\<close>

datatype thrown = ThrownError string | ThrownOther

record recipe_field =
  field_type :: string
  field_label :: string
  field_description :: "string option"
  field_primary :: "bool option"
  field_noise :: "bool option"
  field_currency :: "string option"

record default_alert =
  alert_id :: string
  alert_label :: string
  alert_description :: string
  alert_when :: string
  alert_icon :: "string option"

record recipe_example =
  ex_url :: string
  ex_title :: string
  ex_subtitle :: "string option"
  ex_image :: "string option"

record recipe_meta =
  slug :: string
  name :: string
  description :: string
  longDescription :: "string option"
  icon :: string
  category :: string
  tags :: "string list option"
  maintainers :: "string list"
  createdAt :: "string option"
  updatedAt :: "string option"
  richExamples :: "recipe_example list"

datatype match = RegExp string "string \<Rightarrow> bool" | Predicate "string \<Rightarrow> bool"

record recipe =
  meta :: recipe_meta
  match :: match
  recipeFields :: "(string \<times> recipe_field) list"
  defaultAlerts :: "default_alert list option"
  extractFn :: "string \<Rightarrow> string \<Rightarrow> thrown + jsval"
  transformUrl :: "(string \<Rightarrow> string) option"
  headers :: "(string \<times> string) list option"
  requiresJs :: "bool option"

section \<open>Registry and dispatch (index.ts)\<close>

text \<open>
  The module constants \<open>recipes\<close> (the site-specific recipes in registration order) and
  \<open>genericRecipe\<close> are parameters of \<open>getRecipeForUrl\<close>; the loop over \<open>recipes\<close> is the
  recursion over the list.
\<close>

fun getRecipeForUrl :: "recipe list \<Rightarrow> recipe \<Rightarrow> string \<Rightarrow> recipe" where
  "getRecipeForUrl [] genericRecipe url = genericRecipe"
| "getRecipeForUrl (r # rs) genericRecipe url =
     (case match r of
        RegExp source test \<Rightarrow>
          if test url then r else getRecipeForUrl rs genericRecipe url
      | Predicate f \<Rightarrow>
          if f url then r else getRecipeForUrl rs genericRecipe url)"

definition ownsUrl :: "recipe \<Rightarrow> string \<Rightarrow> bool" where
  \<comment> \<open>the ownership test of a recipe: the regex test or the predicate call\<close>
  "ownsUrl r url = (case match r of RegExp source test \<Rightarrow> test url | Predicate f \<Rightarrow> f url)"

record client_example =
  client_url :: string
  client_title :: string
  client_subtitle :: "string option"
  client_image :: "string option"

record client_field =
  client_key :: string
  client_label :: string
  client_type :: string
  client_primary :: bool

record client_alert =
  client_alert_id :: string
  client_alert_label :: string
  client_alert_description :: string
  client_alert_when :: string
  client_alert_icon :: "string option"

record client_recipe =
  client_slug :: string
  client_name :: string
  client_description :: string
  client_icon :: string
  client_category :: string
  client_tags :: "string list"
  client_richExamples :: "client_example list"
  client_matchPattern :: "string option"
  client_fields :: "client_field list"
  client_defaultAlerts :: "client_alert list"

definition toClientRecipe :: "recipe \<Rightarrow> client_recipe" where
  "toClientRecipe r =
     \<lparr> client_slug = slug (meta r),
       client_name = name (meta r),
       client_description = description (meta r),
       client_icon = icon (meta r),
       client_category = category (meta r),
       client_tags = (case tags (meta r) of None \<Rightarrow> [] | Some ts \<Rightarrow> ts),
       client_richExamples =
         map (\<lambda>ex. \<lparr> client_url = ex_url ex, client_title = ex_title ex,
                      client_subtitle = ex_subtitle ex, client_image = ex_image ex \<rparr>)
           (richExamples (meta r)),
       client_matchPattern =
         (case match r of RegExp source test \<Rightarrow> Some source | Predicate f \<Rightarrow> None),
       client_fields =
         map (\<lambda>(k, f). \<lparr> client_key = k, client_label = field_label f,
                          client_type = field_type f,
                          client_primary = (case field_primary f of None \<Rightarrow> False | Some b \<Rightarrow> b) \<rparr>)
           (recipeFields r),
       client_defaultAlerts =
         map (\<lambda>a. \<lparr> client_alert_id = alert_id a, client_alert_label = alert_label a,
                     client_alert_description = alert_description a,
                     client_alert_when = alert_when a, client_alert_icon = alert_icon a \<rparr>)
           (case defaultAlerts r of None \<Rightarrow> [] | Some as \<Rightarrow> as) \<rparr>"

section \<open>Validation (validate.ts)\<close>

fun showNat :: "nat \<Rightarrow> string" where
  \<comment> \<open>the decimal digits of a count, as a template literal prints it\<close>
  "showNat n = (if n < 10 then [char_of (48 + n)] else showNat (n div 10) @ [char_of (48 + n mod 10)])"

datatype severity = Error | Warning

record validation_error =
  err_recipe :: string
  err_field :: string
  err_message :: string
  err_severity :: severity

record validation_result =
  valid :: bool
  errors :: "validation_error list"
  warnings :: "validation_error list"

definition VALID_CATEGORIES :: "string list" where
  "VALID_CATEGORIES =
     [''ecommerce'', ''developer'', ''jobs'', ''social'', ''news'', ''finance'', ''status'',
      ''entertainment'', ''travel'', ''government'', ''other'']"

fun joinWith :: "string \<Rightarrow> string list \<Rightarrow> string" where
  "joinWith sep [] = ''''"
| "joinWith sep [x] = x"
| "joinWith sep (x # y # ys) = x @ sep @ joinWith sep (y # ys)"

definition slugFormatOk :: "string \<Rightarrow> bool" where
  \<comment> \<open>the test of \<open>/^[a-z0-9-]+$/\<close>\<close>
  "slugFormatOk s \<longleftrightarrow>
     s \<noteq> [] \<and> list_all (\<lambda>c. c \<in> set ''abcdefghijklmnopqrstuvwxyz0123456789-'') s"

text \<open>
  \<open>validateRecipe\<close> calls \<open>addError\<close> and \<open>addWarning\<close> as it goes. An issue is one such
  call: its severity, field and message. \<open>recipeIssues\<close> lists the calls in the order of
  the source, and the two result lists are its errors and its warnings. The checks of
  \<open>recipe.meta\<close>, \<open>recipe.match\<close> and \<open>recipe.extract\<close> for a missing or ill-typed value
  cannot fire on a value of type \<open>Recipe\<close> (and a \<open>RegExp\<close> test of a string does not
  throw), so they add no issue.
\<close>

type_synonym issue = "severity \<times> string \<times> string"

fun alertIssues :: "string list \<Rightarrow> default_alert list \<Rightarrow> issue list" where
  "alertIssues alertIds [] = []"
| "alertIssues alertIds (a # as) =
     (if alert_id a = [] then [(Error, ''defaultAlerts'', ''Alert must have an id'')]
      else if alert_id a \<in> set alertIds
        then [(Error, ''defaultAlerts'', ''Duplicate alert id: '' @ alert_id a)]
      else [])
     @ (if alert_label a = []
        then [(Error, ''defaultAlerts'', ''Alert '' @ alert_id a @ '' must have a label'')]
        else [])
     @ (if alert_when a = []
        then [(Error, ''defaultAlerts'', ''Alert '' @ alert_id a @ '' must have a when condition'')]
        else [])
     @ alertIssues
         (if alert_id a \<noteq> [] \<and> alert_id a \<notin> set alertIds then alert_id a # alertIds
          else alertIds) as"

definition exampleIssues :: "engine \<Rightarrow> recipe \<Rightarrow> recipe_example \<Rightarrow> issue list" where
  "exampleIssues E r ex =
     (if url_hostname E (ex_url ex) = None
      then [(Error, ''meta.richExamples'', ''Invalid example URL: '' @ ex_url ex)] else [])
     @ (if ex_title ex = [] \<or> length (trim (ex_title ex)) = 0
        then [(Error, ''meta.richExamples'', ''Example missing title for URL: '' @ ex_url ex)]
        else [])
     @ (if \<not> (case match r of RegExp source test \<Rightarrow> test (ex_url ex)
                | Predicate f \<Rightarrow> f (ex_url ex))
        then [(Error, ''meta.richExamples'',
               ''Example URL does not match recipe pattern: '' @ ex_url ex)]
        else [])"

definition fieldIssues :: "string \<times> recipe_field \<Rightarrow> issue list" where
  "fieldIssues kf =
     (if field_type (snd kf) = []
      then [(Error, ''fields.'' @ fst kf, ''Field must have a type'')] else [])
     @ (if field_label (snd kf) = []
        then [(Error, ''fields.'' @ fst kf, ''Field must have a label'')] else [])"

definition recipeIssues :: "engine \<Rightarrow> recipe \<Rightarrow> issue list" where
  "recipeIssues E r =
     (if slug (meta r) = [] then [(Error, ''meta.slug'', ''Recipe must have a slug'')]
      else if \<not> slugFormatOk (slug (meta r))
        then [(Error, ''meta.slug'', ''Slug must be lowercase alphanumeric with hyphens only'')]
      else [])
     @ (if name (meta r) = [] then [(Error, ''meta.name'', ''Recipe must have a name'')]
        else if length (name (meta r)) > 50
          then [(Warning, ''meta.name'', ''Name should be under 50 characters'')]
        else [])
     @ (if description (meta r) = []
        then [(Error, ''meta.description'', ''Recipe must have a description'')]
        else if length (description (meta r)) < 20
          then [(Warning, ''meta.description'', ''Description should be at least 20 characters'')]
        else if length (description (meta r)) > 200
          then [(Warning, ''meta.description'', ''Description should be under 200 characters'')]
        else [])
     @ (if icon (meta r) = [] then [(Error, ''meta.icon'', ''Recipe must have an icon'')] else [])
     @ (if category (meta r) = []
        then [(Error, ''meta.category'', ''Recipe must have a category'')]
        else if category (meta r) \<notin> set VALID_CATEGORIES
          then [(Error, ''meta.category'',
                 ''Invalid category. Must be one of: '' @ joinWith '', '' VALID_CATEGORIES)]
        else [])
     @ (if length (maintainers (meta r)) = 0
        then [(Error, ''meta.maintainers'', ''Recipe must have at least one maintainer'')]
        else [])
     @ (if (case tags (meta r) of None \<Rightarrow> True | Some ts \<Rightarrow> length ts = 0)
        then [(Warning, ''meta.tags'', ''Recipe should have at least one tag for discoverability'')]
        else [])
     @ (if length (recipeFields r) = 0
        then [(Error, ''fields'', ''Recipe must have at least one field'')]
        else concat (map fieldIssues (recipeFields r))
             @ (if \<not> list_ex (\<lambda>kf. field_primary (snd kf) = Some True) (recipeFields r)
                then [(Warning, ''fields'', ''Recipe should have at least one primary field'')]
                else []))
     @ (case defaultAlerts r of
          Some as \<Rightarrow> alertIssues [] as
        | None \<Rightarrow> [(Warning, ''defaultAlerts'', ''Recipe should have at least one default alert'')])
     @ (if length (richExamples (meta r)) > 0
        then concat (map (exampleIssues E r) (richExamples (meta r)))
        else [(Warning, ''meta.richExamples'', ''Recipe should have rich examples for better UX'')])"

definition issueEntry :: "string \<Rightarrow> issue \<Rightarrow> validation_error" where
  "issueEntry s i =
     \<lparr> err_recipe = s, err_field = fst (snd i), err_message = snd (snd i),
       err_severity = fst i \<rparr>"

definition validateRecipe :: "engine \<Rightarrow> recipe \<Rightarrow> validation_result" where
  "validateRecipe E r =
     (let s = (if slug (meta r) = [] then ''unknown'' else slug (meta r));
          es = map (issueEntry s) (filter (\<lambda>i. fst i = Error) (recipeIssues E r));
          ws = map (issueEntry s) (filter (\<lambda>i. fst i = Warning) (recipeIssues E r))
      in \<lparr> valid = (length es = 0), errors = es, warnings = ws \<rparr>)"

fun countSlugs :: "(string \<times> nat) list \<Rightarrow> recipe list \<Rightarrow> (string \<times> nat) list" where
  \<comment> \<open>the loop that fills the \<open>Map\<close> named \<open>slugs\<close>; the list keeps the insertion order\<close>
  "countSlugs slugs [] = slugs"
| "countSlugs slugs (r # rs) =
     countSlugs
       (if slug (meta r) \<noteq> []
        then AList.update (slug (meta r))
               ((case map_of slugs (slug (meta r)) of None \<Rightarrow> 0 | Some c \<Rightarrow> c) + 1) slugs
        else slugs) rs"

definition duplicateError :: "string \<times> nat \<Rightarrow> validation_error" where
  "duplicateError sc =
     \<lparr> err_recipe = fst sc, err_field = ''meta.slug'',
       err_message = ''Duplicate slug found '' @ showNat (snd sc) @ '' times'',
       err_severity = Error \<rparr>"

definition overlapPair :: "recipe \<Rightarrow> recipe \<Rightarrow> validation_error list" where
  \<comment> \<open>the body of the two nested loops for one pair \<open>r1\<close>, \<open>r2\<close> with \<open>r1\<close> before \<open>r2\<close>\<close>
  "overlapPair r1 r2 =
     (if slug (meta r1) = ''generic'' \<or> slug (meta r2) = ''generic'' then []
      else
        map (\<lambda>ex. \<lparr> err_recipe = slug (meta r1), err_field = ''match'',
                     err_message = ''Example '' @ [CHR 0x22] @ ex_url ex @ [CHR 0x22]
                                   @ '' also matches '' @ slug (meta r2) @ '' recipe'',
                     err_severity = Warning \<rparr>)
          (filter (\<lambda>ex. case match r2 of RegExp source test \<Rightarrow> test (ex_url ex)
                         | Predicate f \<Rightarrow> f (ex_url ex))
             (richExamples (meta r1))))"

fun overlapWarnings :: "recipe list \<Rightarrow> validation_error list" where
  "overlapWarnings [] = []"
| "overlapWarnings (r1 # rs) = concat (map (overlapPair r1) rs) @ overlapWarnings rs"

definition validateAllRecipes :: "engine \<Rightarrow> recipe list \<Rightarrow> validation_result" where
  "validateAllRecipes E recipes =
     (let allErrors =
            concat (map (\<lambda>r. errors (validateRecipe E r)) recipes)
            @ map duplicateError (filter (\<lambda>sc. snd sc > 1) (countSlugs [] recipes));
          allWarnings =
            concat (map (\<lambda>r. warnings (validateRecipe E r)) recipes)
            @ overlapWarnings recipes
      in \<lparr> valid = (length allErrors = 0), errors = allErrors, warnings = allWarnings \<rparr>)"

text \<open>
  \<open>testExtractFunction\<close>: the \<open>try\<close> block around the awaited call and the two checks of
  its result. \<open>typeof data === 'object'\<close> holds for \<open>null\<close>, arrays and objects;
  \<open>Object.entries\<close> of an array pairs each index with its element.
\<close>

record test_result =
  success :: bool
  data :: "jsval option"
  error :: "string option"

definition typeofObject :: "jsval \<Rightarrow> bool" where
  "typeofObject v = (case v of JNull \<Rightarrow> True | JArr xs \<Rightarrow> True | JObj kvs \<Rightarrow> True | _ \<Rightarrow> False)"

definition objectEntries :: "jsval \<Rightarrow> (string \<times> jsval) list" where
  "objectEntries v =
     (case v of
        JObj kvs \<Rightarrow> kvs
      | JArr xs \<Rightarrow> zip (map showNat [0..<length xs]) xs
      | _ \<Rightarrow> [])"

definition testExtractFunction :: "recipe \<Rightarrow> string \<Rightarrow> string \<Rightarrow> test_result" where
  "testExtractFunction r html url =
     (case extractFn r html url of
        Inl err \<Rightarrow>
          \<lparr> success = False, data = None,
            error = Some (case err of ThrownError message \<Rightarrow> message
                          | ThrownOther \<Rightarrow> ''Unknown error'') \<rparr>
      | Inr d \<Rightarrow>
          if \<not> typeofObject d \<or> d = JNull
          then \<lparr> success = False, data = None, error = Some ''Extract must return an object'' \<rparr>
          else
            (case find (\<lambda>kv. snd kv = JUndefined) (objectEntries d) of
               Some kv \<Rightarrow>
                 \<lparr> success = False, data = None,
                   error = Some (''Field '' @ fst kv @ '' is undefined (should be omitted)'') \<rparr>
             | None \<Rightarrow> \<lparr> success = True, data = Some d, error = None \<rparr>))"

text \<open>
  Small recipes for concrete instances: \<open>plainRecipe s m\<close> has the identity \<open>s\<close>, the
  ownership test \<open>m\<close>, one field and an extraction routine that returns the empty object.
\<close>

fun includesStr :: "string \<Rightarrow> string \<Rightarrow> bool" where
  \<comment> \<open>\<open>s.includes(p)\<close> for strings\<close>
  "includesStr [] p = (p = [])"
| "includesStr (c # cs) p = (startsWith (c # cs) p \<or> includesStr cs p)"

definition plainRecipe :: "string \<Rightarrow> match \<Rightarrow> recipe" where
  "plainRecipe s m =
     \<lparr> meta = \<lparr> slug = s, name = ''Test'', description = ''A recipe for a test site'',
                longDescription = None, icon = ''t'', category = ''other'',
                tags = None, maintainers = [''test''], createdAt = None, updatedAt = None,
                richExamples = [] \<rparr>,
       match = m,
       recipeFields =
         [(''title'', \<lparr> field_type = ''string'', field_label = ''Title'',
                       field_description = None, field_primary = None, field_noise = None,
                       field_currency = None \<rparr>)],
       defaultAlerts = None,
       extractFn = (\<lambda>html url. Inr (JObj [])),
       transformUrl = None, headers = None, requiresJs = None \<rparr>"

definition shopRecipe :: recipe where
  "shopRecipe = plainRecipe ''shop'' (Predicate (\<lambda>u. startsWith u ''https://shop.test/item/''))"

definition itemRecipe :: recipe where
  "itemRecipe = plainRecipe ''item'' (RegExp ''item'' (\<lambda>u. includesStr u ''item''))"

definition fallbackRecipe :: recipe where
  "fallbackRecipe = plainRecipe ''generic'' (Predicate (\<lambda>u. True))"

definition throwingRecipe :: recipe where
  \<comment> \<open>the recipe of the test \<open>returns error for extract that throws\<close>\<close>
  "throwingRecipe =
     (fallbackRecipe \<lparr> extractFn := (\<lambda>html url. Inl (ThrownError ''Test error'')) \<rparr>)"

definition nullRecipe :: recipe where
  \<comment> \<open>the recipe of the test \<open>returns error for extract that returns non-object\<close>\<close>
  "nullRecipe = (fallbackRecipe \<lparr> extractFn := (\<lambda>html url. Inr JNull) \<rparr>)"

definition undefinedFieldRecipe :: recipe where
  "undefinedFieldRecipe =
     (fallbackRecipe
        \<lparr> extractFn := (\<lambda>html url. Inr (JObj [(''title'', JStr ''T''), (''price'', JUndefined)])) \<rparr>)"

definition titleRecipe :: recipe where
  "titleRecipe = (fallbackRecipe \<lparr> extractFn := (\<lambda>html url. Inr (JObj [(''title'', JStr ''T'')])) \<rparr>)"

definition slugsOf :: "recipe list \<Rightarrow> string list" where
  "slugsOf recipes = map (\<lambda>r. slug (meta r)) recipes"

definition blankRecipe :: recipe where
  \<comment> \<open>a recipe whose slug is the empty string\<close>
  "blankRecipe = plainRecipe '''' (Predicate (\<lambda>u. False))"

section \<open>Operations on JavaScript values\<close>

fun truthy :: "jsval \<Rightarrow> bool" where
  "truthy JUndefined = False"
| "truthy JNull = False"
| "truthy (JBool b) = b"
| "truthy (JNum n) = numTruthy n"
| "truthy (JStr s) = (s \<noteq> [])"
| "truthy (JArr xs) = True"
| "truthy (JObj kvs) = True"

definition jsOr :: "jsval \<Rightarrow> jsval \<Rightarrow> jsval" where
  \<comment> \<open>\<open>a || b\<close>\<close>
  "jsOr a b = (if truthy a then a else b)"

definition getProp :: "jsobj \<Rightarrow> string \<Rightarrow> jsval" where
  \<comment> \<open>reading \<open>data.k\<close>: an absent key reads as \<open>undefined\<close>\<close>
  "getProp d k = (case map_of d k of None \<Rightarrow> JUndefined | Some v \<Rightarrow> v)"

definition setProp :: "jsobj \<Rightarrow> string \<Rightarrow> jsval \<Rightarrow> jsobj" where
  \<comment> \<open>the assignment \<open>data.k = v\<close>: a present key keeps its place, a new key goes last\<close>
  "setProp d k v = AList.update k v d"

text \<open>
  Reading a property of a value of type \<open>any\<close> (an element of the JSON-LD array). The
  names that the source reads (\<open>@type\<close>, \<open>name\<close>, \<open>offers\<close>, \<open>price\<close>, ...) are defined by no
  built-in prototype, so only an object can have them; reading a property of \<open>null\<close> or
  \<open>undefined\<close> throws a \<open>TypeError\<close>, which is the result \<open>None\<close>.
\<close>

definition getMember :: "jsval \<Rightarrow> string \<Rightarrow> jsval option" where
  "getMember v k =
     (case v of
        JUndefined \<Rightarrow> None
      | JNull \<Rightarrow> None
      | JObj kvs \<Rightarrow> Some (getProp kvs k)
      | _ \<Rightarrow> Some JUndefined)"

definition optMember :: "jsval \<Rightarrow> string \<Rightarrow> jsval" where
  \<comment> \<open>\<open>v?.k\<close>\<close>
  "optMember v k = (case v of JObj kvs \<Rightarrow> getProp kvs k | _ \<Rightarrow> JUndefined)"

definition optIndex0 :: "jsval \<Rightarrow> jsval" where
  \<comment> \<open>\<open>v?.[0]\<close>: the first element of an array, the first character of a string\<close>
  "optIndex0 v =
     (case v of
        JArr xs \<Rightarrow> (case xs of [] \<Rightarrow> JUndefined | x # rest \<Rightarrow> x)
      | JStr s \<Rightarrow> (case s of [] \<Rightarrow> JUndefined | c # rest \<Rightarrow> JStr [c])
      | JObj kvs \<Rightarrow> getProp kvs ''0''
      | _ \<Rightarrow> JUndefined)"

definition firstIfArray :: "jsval \<Rightarrow> jsval" where
  \<comment> \<open>\<open>Array.isArray(v) ? v[0] : v\<close>\<close>
  "firstIfArray v =
     (case v of JArr xs \<Rightarrow> (case xs of [] \<Rightarrow> JUndefined | x # rest \<Rightarrow> x) | _ \<Rightarrow> v)"

definition includesCall :: "jsval \<Rightarrow> string \<Rightarrow> bool option" where
  \<comment> \<open>\<open>v.includes(p)\<close>: strings and arrays have the method, for any other value the call
      throws\<close>
  "includesCall v p =
     (case v of
        JStr s \<Rightarrow> Some (includesStr s p)
      | JArr xs \<Rightarrow> Some (JStr p \<in> set xs)
      | _ \<Rightarrow> None)"

text \<open>
  The conversion of a value to a string, as \<open>parseFloat\<close> and \<open>parseInt\<close> apply it to
  their argument. An object made by \<open>JSON.parse\<close> converts to \<open>[object Object]\<close>, unless
  it has an own property \<open>toString\<close> (which is then not callable): the conversion throws.
  An array converts to its elements joined by commas, \<open>null\<close> and \<open>undefined\<close> elements as
  empty strings.
\<close>

fun toStringJS :: "engine \<Rightarrow> jsval \<Rightarrow> string option" where
  "toStringJS E JUndefined = Some ''undefined''"
| "toStringJS E JNull = Some ''null''"
| "toStringJS E (JBool b) = Some (if b then ''true'' else ''false'')"
| "toStringJS E (JNum n) = Some (number_to_string E n)"
| "toStringJS E (JStr s) = Some s"
| "toStringJS E (JArr xs) =
     map_option
       (\<lambda>strs. joinWith '',''
                 (map (\<lambda>p. if fst p = JUndefined \<or> fst p = JNull then '''' else snd p)
                    (zip xs strs)))
       (those (map (toStringJS E) xs))"
| "toStringJS E (JObj kvs) =
     (if ''toString'' \<in> fst ` set kvs then None else Some ''[object Object]'')"

definition parseFloatVal :: "engine \<Rightarrow> jsval \<Rightarrow> jsnum option" where
  \<comment> \<open>\<open>parseFloat(v)\<close>; for a number, \<open>parseFloat(String(n))\<close> is \<open>n\<close> again\<close>
  "parseFloatVal E v =
     (case v of JNum n \<Rightarrow> Some n | _ \<Rightarrow> map_option parseFloat (toStringJS E v))"

definition parseIntVal :: "engine \<Rightarrow> jsval \<Rightarrow> jsnum option" where
  \<comment> \<open>\<open>parseInt(v, 10)\<close>\<close>
  "parseIntVal E v = map_option parseInt10 (toStringJS E v)"

definition numPositive :: "jsnum \<Rightarrow> bool" where
  \<comment> \<open>\<open>x > 0\<close>\<close>
  "numPositive x = (case x of Fin q \<Rightarrow> q > 0 | PosInf \<Rightarrow> True | _ \<Rightarrow> False)"

definition removeCommas :: "string \<Rightarrow> string" where
  \<comment> \<open>\<open>s.replace(/,/g, '')\<close>\<close>
  "removeCommas s = filter (\<lambda>c. c \<noteq> CHR '','') s"

section \<open>Readers of the payload (helpers.ts)\<close>

text \<open>
  \<open>extractMetaTags\<close> returns an object from tag names to strings. The model keeps its own
  properties as an association list; \<open>metaGet\<close> reads one of the names that the recipes
  read (\<open>og:title\<close>, \<open>description\<close>, ...), none of which a built-in prototype defines.
\<close>

definition extractMetaTags :: "engine \<Rightarrow> string \<Rightarrow> (string \<times> string) list" where
  "extractMetaTags E html =
     (let meta0 = (case re_exec E Re_title html of
                     Some titleMatch \<Rightarrow> AList.update ''title'' (trim (titleMatch 1)) []
                   | None \<Rightarrow> []);
          meta1 = foldl (\<lambda>m mt. AList.update (toLowerCase (mt 1)) (mt 2) m) meta0
                    (re_exec_all E Re_meta_name_content html);
          meta2 = foldl (\<lambda>m mt. AList.update (toLowerCase (mt 2)) (mt 1) m) meta1
                    (re_exec_all E Re_meta_content_name html)
      in meta2)"

definition metaGet :: "(string \<times> string) list \<Rightarrow> string \<Rightarrow> jsval" where
  "metaGet m k = (case map_of m k of None \<Rightarrow> JUndefined | Some s \<Rightarrow> JStr s)"

definition extractJsonLd :: "engine \<Rightarrow> string \<Rightarrow> jsval list" where
  "extractJsonLd E html =
     concat (map (\<lambda>mt. case json_parse E (mt 1) of
                          None \<Rightarrow> []
                        | Some json \<Rightarrow> (case json of JArr xs \<Rightarrow> xs | _ \<Rightarrow> [json]))
               (re_exec_all E Re_jsonld html))"

definition extractFirst :: "engine \<Rightarrow> string \<Rightarrow> regex \<Rightarrow> string option" where
  \<comment> \<open>\<open>match?.[1]?.trim()\<close>; \<open>None\<close> is \<open>undefined\<close>\<close>
  "extractFirst E html re =
     (case re_exec E re html of None \<Rightarrow> None | Some mt \<Rightarrow> Some (trim (mt 1)))"

section \<open>The Amazon extraction routine (recipes/amazon.ts)\<close>

text \<open>
  The routine fills the object \<open>data\<close> stage by stage. Each stage of the source is one
  definition that takes \<open>data\<close> and returns it updated; \<open>amazon_extract\<close> runs them in the
  order of the source. Only the loop over the JSON-LD objects can
  throw (it reads properties of values of type \<open>any\<close>), so its result is an option, and
  \<open>None\<close> is a thrown \<open>TypeError\<close>.
\<close>

definition asinStage :: "engine \<Rightarrow> string \<Rightarrow> jsobj \<Rightarrow> jsobj" where
  "asinStage E url d =
     (case re_exec E Re_asin url of
        Some asinMatch \<Rightarrow> setProp d ''asin'' (JStr (asinMatch 1))
      | None \<Rightarrow> d)"

definition amazonOffer :: "engine \<Rightarrow> jsobj \<Rightarrow> jsval \<Rightarrow> jsobj option" where
  \<comment> \<open>the body of \<open>if (ld.offers)\<close>, for a truthy \<open>ld.offers\<close>\<close>
  "amazonOffer E d offers =
     do {
       let offer = firstIfArray offers;
       price \<leftarrow> getMember offer ''price'';
       d1 \<leftarrow> (if truthy price
             then do { p \<leftarrow> parseFloatVal E price; Some (setProp d ''price'' (JNum p)) }
             else Some d);
       availability \<leftarrow> getMember offer ''availability'';
       (if truthy availability
        then do { b \<leftarrow> includesCall availability ''InStock'';
                  Some (setProp d1 ''inStock'' (JBool b)) }
        else Some d1)
     }"

definition amazonRating :: "engine \<Rightarrow> jsobj \<Rightarrow> jsval \<Rightarrow> jsobj option" where
  \<comment> \<open>the body of \<open>if (ld.aggregateRating)\<close>, for a truthy \<open>ld.aggregateRating\<close>\<close>
  "amazonRating E d aggregateRating =
     do {
       ratingValue \<leftarrow> getMember aggregateRating ''ratingValue'';
       rating \<leftarrow> parseFloatVal E ratingValue;
       reviewCount \<leftarrow> getMember aggregateRating ''reviewCount'';
       count \<leftarrow> parseIntVal E reviewCount;
       Some (setProp (setProp d ''rating'' (JNum rating)) ''reviewCount'' (JNum count))
     }"

definition amazonLdStep :: "engine \<Rightarrow> jsobj \<Rightarrow> jsval \<Rightarrow> jsobj option" where
  \<comment> \<open>one turn of the loop \<open>for (const ld of jsonLd)\<close>\<close>
  "amazonLdStep E d ld =
     do {
       ty \<leftarrow> getMember ld ''@type'';
       (if ty = JStr ''Product'' then
          do {
            ldName \<leftarrow> getMember ld ''name'';
            let d1 = setProp d ''title'' (jsOr (getProp d ''title'') ldName);
            ldDescription \<leftarrow> getMember ld ''description'';
            let d2 = setProp d1 ''description'' (jsOr (getProp d1 ''description'') ldDescription);
            ldBrand \<leftarrow> getMember ld ''brand'';
            let d3 = setProp d2 ''brand'' (jsOr (optMember ldBrand ''name'') ldBrand);
            ldImage \<leftarrow> getMember ld ''image'';
            let d4 = setProp d3 ''imageUrl'' (jsOr (optIndex0 ldImage) ldImage);
            ldOffers \<leftarrow> getMember ld ''offers'';
            d5 \<leftarrow> (if truthy ldOffers then amazonOffer E d4 ldOffers else Some d4);
            ldRating \<leftarrow> getMember ld ''aggregateRating'';
            (if truthy ldRating then amazonRating E d5 ldRating else Some d5)
          }
        else Some d)
     }"

fun amazonLdLoop :: "engine \<Rightarrow> jsobj \<Rightarrow> jsval list \<Rightarrow> jsobj option" where
  "amazonLdLoop E d [] = Some d"
| "amazonLdLoop E d (ld # lds) =
     (case amazonLdStep E d ld of None \<Rightarrow> None | Some d1 \<Rightarrow> amazonLdLoop E d1 lds)"

definition productTitleStage :: "engine \<Rightarrow> string \<Rightarrow> jsobj \<Rightarrow> jsobj" where
  "productTitleStage E html d =
     (if \<not> truthy (getProp d ''title'') then
        (case extractFirst E html Re_productTitle of
           Some title \<Rightarrow>
             if title \<noteq> [] then setProp d ''title'' (JStr (decodeHtmlEntities E (trim title)))
             else d
         | None \<Rightarrow> d)
      else d)"

definition metaTitleStage :: "engine \<Rightarrow> string \<Rightarrow> jsobj \<Rightarrow> jsobj" where
  "metaTitleStage E html d =
     (if \<not> truthy (getProp d ''title'') then
        (let m = extractMetaTags E html
         in setProp d ''title'' (jsOr (metaGet m ''og:title'') (metaGet m ''twitter:title'')))
      else d)"

definition wholePriceStage :: "engine \<Rightarrow> string \<Rightarrow> jsobj \<Rightarrow> jsobj" where
  "wholePriceStage E html d =
     (if \<not> truthy (getProp d ''price'') then
        (case re_exec E Re_priceWhole html of
           Some wholePriceMatch \<Rightarrow>
             (let whole = removeCommas (wholePriceMatch 1);
                  fraction = (case re_exec E Re_priceFraction html of
                                Some fractionMatch \<Rightarrow> fractionMatch 1
                              | None \<Rightarrow> ''00'')
              in setProp d ''price'' (JNum (parseFloat (whole @ ''.'' @ fraction))))
         | None \<Rightarrow> d)
      else d)"

definition pricePatterns :: "regex list" where
  "pricePatterns =
     [Re_price_offscreen, Re_price_ourprice, Re_price_dealprice, Re_price_saleprice,
      Re_price_aprice]"

fun firstPatternPrice :: "engine \<Rightarrow> string \<Rightarrow> regex list \<Rightarrow> jsnum option" where
  \<comment> \<open>the loop over \<open>pricePatterns\<close>: the price at which it breaks, if it does\<close>
  "firstPatternPrice E html [] = None"
| "firstPatternPrice E html (re # res) =
     (case extractFirst E html re of
        Some priceStr \<Rightarrow>
          if priceStr \<noteq> [] then
            (case parsePrice (Some priceStr) of
               Some price \<Rightarrow>
                 if numPositive price then Some price else firstPatternPrice E html res
             | None \<Rightarrow> firstPatternPrice E html res)
          else firstPatternPrice E html res
      | None \<Rightarrow> firstPatternPrice E html res)"

definition patternPriceStage :: "engine \<Rightarrow> string \<Rightarrow> jsobj \<Rightarrow> jsobj" where
  "patternPriceStage E html d =
     (if \<not> truthy (getProp d ''price'') then
        (case firstPatternPrice E html pricePatterns of
           Some price \<Rightarrow> setProp d ''price'' (JNum price)
         | None \<Rightarrow> d)
      else d)"

definition originalPriceStage :: "engine \<Rightarrow> string \<Rightarrow> jsobj \<Rightarrow> jsobj" where
  "originalPriceStage E html d =
     (case re_exec E Re_originalPrice html of
        Some originalPriceMatch \<Rightarrow>
          setProp d ''originalPrice''
            (case parsePrice (Some (originalPriceMatch 1)) of
               Some price \<Rightarrow> JNum price
             | None \<Rightarrow> JUndefined)
      | None \<Rightarrow> d)"

definition discountStage :: "engine \<Rightarrow> string \<Rightarrow> jsobj \<Rightarrow> jsobj" where
  "discountStage E html d =
     (case re_exec E Re_discount html of
        Some discountMatch \<Rightarrow> setProp d ''discount'' (JStr (discountMatch 1))
      | None \<Rightarrow> d)"

definition stockPatterns :: "regex list" where
  "stockPatterns = [Re_stock_success, Re_stock_availability, Re_stock_message]"

fun firstStock :: "engine \<Rightarrow> string \<Rightarrow> regex list \<Rightarrow> bool option" where
  \<comment> \<open>the loop over \<open>stockPatterns\<close>: the value assigned to \<open>inStock\<close> before \<open>break\<close>\<close>
  "firstStock E html [] = None"
| "firstStock E html (re # res) =
     (case extractFirst E html re of
        Some stock \<Rightarrow>
          if stock \<noteq> [] then
            (let stockLower = toLowerCase stock
             in Some (includesStr stockLower ''in stock'' \<or> includesStr stockLower ''available''
                      \<or> includesStr stockLower ''only''
                      \<or> includesStr stockLower ''left in stock''))
          else firstStock E html res
      | None \<Rightarrow> firstStock E html res)"

definition stockStage :: "engine \<Rightarrow> string \<Rightarrow> jsobj \<Rightarrow> jsobj" where
  "stockStage E html d =
     (if getProp d ''inStock'' = JUndefined then
        (case firstStock E html stockPatterns of
           Some b \<Rightarrow> setProp d ''inStock'' (JBool b)
         | None \<Rightarrow> d)
      else d)"

definition outOfStockPatterns :: "regex list" where
  "outOfStockPatterns =
     [Re_oos_unavailable, Re_oos_outOfStock, Re_oos_notAvailable, Re_oos_dontKnow]"

definition outOfStockStage :: "engine \<Rightarrow> string \<Rightarrow> jsobj \<Rightarrow> jsobj" where
  "outOfStockStage E html d =
     (if getProp d ''inStock'' = JUndefined then
        (if list_ex (\<lambda>re. re_test E re html) outOfStockPatterns
         then setProp d ''inStock'' (JBool False) else d)
      else d)"

definition defaultStockStage :: "jsobj \<Rightarrow> jsobj" where
  "defaultStockStage d =
     (if getProp d ''inStock'' = JUndefined \<and> getProp d ''price'' \<noteq> JUndefined
      then setProp d ''inStock'' (JBool True) else d)"

definition ratingStage :: "engine \<Rightarrow> string \<Rightarrow> jsobj \<Rightarrow> jsobj" where
  "ratingStage E html d =
     (if \<not> truthy (getProp d ''rating'') then
        (case re_exec E Re_rating html of
           Some ratingMatch \<Rightarrow> setProp d ''rating'' (JNum (parseFloat (ratingMatch 1)))
         | None \<Rightarrow> d)
      else d)"

definition reviewPatterns :: "regex list" where
  "reviewPatterns = [Re_review_acr, Re_review_any]"

fun firstMatch :: "engine \<Rightarrow> string \<Rightarrow> regex list \<Rightarrow> rematch option" where
  \<comment> \<open>a loop that takes the first pattern of the list with a match and breaks\<close>
  "firstMatch E html [] = None"
| "firstMatch E html (re # res) =
     (case re_exec E re html of Some mt \<Rightarrow> Some mt | None \<Rightarrow> firstMatch E html res)"

definition reviewCountStage :: "engine \<Rightarrow> string \<Rightarrow> jsobj \<Rightarrow> jsobj" where
  "reviewCountStage E html d =
     (if \<not> truthy (getProp d ''reviewCount'') then
        (case firstMatch E html reviewPatterns of
           Some reviewMatch \<Rightarrow>
             setProp d ''reviewCount'' (JNum (parseInt10 (removeCommas (reviewMatch 1))))
         | None \<Rightarrow> d)
      else d)"

definition brandPatterns :: "regex list" where
  "brandPatterns = [Re_brand_link, Re_brand_byline, Re_brand_po]"

fun firstNonEmpty :: "engine \<Rightarrow> string \<Rightarrow> regex list \<Rightarrow> string option" where
  \<comment> \<open>a loop that takes the first pattern whose \<open>extractFirst\<close> is a non-empty string and
      breaks\<close>
  "firstNonEmpty E html [] = None"
| "firstNonEmpty E html (re # res) =
     (case extractFirst E html re of
        Some s \<Rightarrow> if s \<noteq> [] then Some s else firstNonEmpty E html res
      | None \<Rightarrow> firstNonEmpty E html res)"

definition stripBrandAffixes :: "string \<Rightarrow> string" where
  \<comment> \<open>\<open>.replace(/^(Visit the |Brand: )/i, '').replace(/ Store$/, '')\<close>\<close>
  "stripBrandAffixes s =
     (let s1 = (if startsWith (toLowerCase s) ''visit the '' then drop 10 s
                else if startsWith (toLowerCase s) ''brand: '' then drop 7 s
                else s)
      in if endsWith s1 '' Store'' then take (length s1 - 6) s1 else s1)"

definition brandStage :: "engine \<Rightarrow> string \<Rightarrow> jsobj \<Rightarrow> jsobj" where
  "brandStage E html d =
     (if \<not> truthy (getProp d ''brand'') then
        (case firstNonEmpty E html brandPatterns of
           Some brand \<Rightarrow>
             setProp d ''brand'' (JStr (decodeHtmlEntities E (stripBrandAffixes (trim brand))))
         | None \<Rightarrow> d)
      else d)"

definition sellerStage :: "engine \<Rightarrow> string \<Rightarrow> jsobj \<Rightarrow> jsobj" where
  "sellerStage E html d =
     (case re_exec E Re_seller html of
        Some sellerMatch \<Rightarrow>
          setProp d ''seller'' (JStr (decodeHtmlEntities E (trim (sellerMatch 1))))
      | None \<Rightarrow>
          (case re_exec E Re_soldBy html of
             Some soldByMatch \<Rightarrow>
               setProp d ''seller'' (JStr (decodeHtmlEntities E (trim (soldByMatch 1))))
           | None \<Rightarrow> d))"

definition badgeStage :: "engine \<Rightarrow> string \<Rightarrow> jsobj \<Rightarrow> jsobj" where
  \<comment> \<open>\<open>data.isPrime\<close> and \<open>data.isDeal\<close>\<close>
  "badgeStage E html d =
     setProp (setProp d ''isPrime'' (JBool (re_test E Re_prime html)))
       ''isDeal'' (JBool (re_test E Re_deal html))"

definition couponStage :: "engine \<Rightarrow> string \<Rightarrow> jsobj \<Rightarrow> jsobj" where
  "couponStage E html d =
     (case re_exec E Re_coupon html of
        Some couponMatch \<Rightarrow>
          setProp d ''coupon''
            (JStr (if includesStr (couponMatch 1) ''%'' then couponMatch 1
                   else ''$'' @ couponMatch 1))
      | None \<Rightarrow> d)"

definition bestSellerStage :: "engine \<Rightarrow> string \<Rightarrow> jsobj \<Rightarrow> jsobj" where
  "bestSellerStage E html d =
     (case re_exec E Re_bsr html of
        Some bsrMatch \<Rightarrow>
          setProp
            (setProp d ''bestSellerRank'' (JNum (parseInt10 (removeCommas (bsrMatch 1)))))
            ''category'' (JStr (trim (bsrMatch 2)))
      | None \<Rightarrow> d)"

definition deliveryStage :: "engine \<Rightarrow> string \<Rightarrow> jsobj \<Rightarrow> jsobj" where
  "deliveryStage E html d =
     (case re_exec E Re_delivery html of
        Some deliveryMatch \<Rightarrow>
          setProp d ''deliveryDate'' (JStr (decodeHtmlEntities E (trim (deliveryMatch 1))))
      | None \<Rightarrow> d)"

definition imagePatterns :: "regex list" where
  "imagePatterns = [Re_image_landing, Re_image_blkFront, Re_image_dynamic]"

definition imageStage :: "engine \<Rightarrow> string \<Rightarrow> jsobj \<Rightarrow> jsobj" where
  "imageStage E html d =
     (if \<not> truthy (getProp d ''imageUrl'') then
        (case firstMatch E html imagePatterns of
           Some imageMatch \<Rightarrow> setProp d ''imageUrl'' (JStr (imageMatch 1))
         | None \<Rightarrow> d)
      else d)"

definition amazonJsonLdStage :: "engine \<Rightarrow> string \<Rightarrow> string \<Rightarrow> jsobj option" where
  \<comment> \<open>\<open>data\<close> after the URL stage and the loop over the JSON-LD objects\<close>
  "amazonJsonLdStage E html url = amazonLdLoop E (asinStage E url []) (extractJsonLd E html)"

definition amazonStages :: "engine \<Rightarrow> string \<Rightarrow> (jsobj \<Rightarrow> jsobj) list" where
  \<comment> \<open>the stages that follow the JSON-LD loop, in the order of the source\<close>
  "amazonStages E html =
     [productTitleStage E html, metaTitleStage E html, wholePriceStage E html,
      patternPriceStage E html, originalPriceStage E html, discountStage E html,
      stockStage E html, outOfStockStage E html, defaultStockStage, ratingStage E html,
      reviewCountStage E html, brandStage E html, sellerStage E html, badgeStage E html,
      couponStage E html, bestSellerStage E html, deliveryStage E html, imageStage E html]"

definition runStages :: "(jsobj \<Rightarrow> jsobj) list \<Rightarrow> jsobj \<Rightarrow> jsobj" where
  \<comment> \<open>\<open>data\<close> after the stages of the list have run one after the other\<close>
  "runStages stages d = fold (\<lambda>stage dat. stage dat) stages d"

definition amazon_extract :: "engine \<Rightarrow> string \<Rightarrow> string \<Rightarrow> jsobj option" where
  "amazon_extract E html url =
     (case amazonJsonLdStage E html url of
        None \<Rightarrow> None
      | Some d \<Rightarrow> Some (runStages (amazonStages E html) d))"

definition typeError :: thrown where
  \<comment> \<open>a thrown \<open>TypeError\<close>; the text of its message is not modelled\<close>
  "typeError = ThrownError ''TypeError''"

definition amazonExtractFn :: "engine \<Rightarrow> string \<Rightarrow> string \<Rightarrow> thrown + jsval" where
  \<comment> \<open>what the promise of \<open>amazonRecipe.extract(html, url)\<close> settles to\<close>
  "amazonExtractFn E html url =
     (case amazon_extract E html url of None \<Rightarrow> Inl typeError | Some d \<Rightarrow> Inr (JObj d))"

section \<open>The generic extraction routine (recipes/generic.ts)\<close>

definition extractPageTitle :: "engine \<Rightarrow> string \<Rightarrow> jsval" where
  "extractPageTitle E html =
     (case re_exec E Re_title html of
        Some mt \<Rightarrow> JStr (decodeHtmlEntities E (trim (mt 1)))
      | None \<Rightarrow> JUndefined)"

definition mainPatterns :: "regex list" where
  "mainPatterns = [Re_main, Re_article, Re_div_content_class, Re_div_content_id]"

definition extractMainContent :: "engine \<Rightarrow> string \<Rightarrow> string option" where
  \<comment> \<open>\<open>None\<close> is \<open>undefined\<close>, returned for an empty content\<close>
  "extractMainContent E html =
     (let content0 =
            re_replace_all E Re_aside
              (re_replace_all E Re_footer
                (re_replace_all E Re_header
                  (re_replace_all E Re_nav
                    (re_replace_all E Re_style
                      (re_replace_all E Re_script html '''') '''') '''') '''') '''') '''';
          content1 = (case firstMatch E content0 mainPatterns of
                        Some mt \<Rightarrow> mt 1
                      | None \<Rightarrow> content0);
          content2 = re_replace_all E Re_anyTag content1 '' '';
          content3 = cleanText content2;
          content4 = (if length content3 > 5000 then take 5000 content3 @ ''...'' else content3)
      in if content4 = [] then None else Some content4)"

fun countWords :: "bool \<Rightarrow> string \<Rightarrow> nat" where
  \<comment> \<open>\<open>s.split(/\s+/).filter(Boolean).length\<close>: the number of maximal runs of characters
      that are not white space; the flag says that the scan is inside such a run\<close>
  "countWords inWord [] = 0"
| "countWords inWord (c # cs) =
     (if isWhiteSpace c then countWords False cs
      else if inWord then countWords True cs
      else Suc (countWords True cs))"

definition genericOffer :: "engine \<Rightarrow> jsobj \<Rightarrow> jsval \<Rightarrow> jsobj option" where
  \<comment> \<open>the body of \<open>if (ld.offers)\<close>, for a truthy \<open>ld.offers\<close>\<close>
  "genericOffer E d offers =
     do {
       price \<leftarrow> getMember offers ''price'';
       p \<leftarrow> parseFloatVal E price;
       let d1 = setProp d ''price'' (JNum p);
       priceCurrency \<leftarrow> getMember offers ''priceCurrency'';
       let d2 = setProp d1 ''currency'' priceCurrency;
       availability \<leftarrow> getMember offers ''availability'';
       (if availability = JUndefined \<or> availability = JNull
        then Some (setProp d2 ''inStock'' JUndefined)
        else do { b \<leftarrow> includesCall availability ''InStock'';
                  Some (setProp d2 ''inStock'' (JBool b)) })
     }"

definition genericLdStep :: "engine \<Rightarrow> jsobj \<Rightarrow> jsval \<Rightarrow> jsobj option" where
  "genericLdStep E d ld =
     do {
       ty \<leftarrow> getMember ld ''@type'';
       d5 \<leftarrow> (if ty = JStr ''Article'' \<or> ty = JStr ''NewsArticle'' then
               do {
                 headline \<leftarrow> getMember ld ''headline'';
                 let d1 = setProp d ''title'' (jsOr (getProp d ''title'') headline);
                 ldDescription \<leftarrow> getMember ld ''description'';
                 let d2 = setProp d1 ''description''
                            (jsOr (getProp d1 ''description'') ldDescription);
                 author \<leftarrow> getMember ld ''author'';
                 let d3 = setProp d2 ''author''
                            (jsOr (getProp d2 ''author'') (optMember author ''name''));
                 datePublished \<leftarrow> getMember ld ''datePublished'';
                 let d4 = setProp d3 ''publishedDate'' datePublished;
                 dateModified \<leftarrow> getMember ld ''dateModified'';
                 Some (setProp d4 ''modifiedDate'' dateModified)
               }
             else Some d);
       (if ty = JStr ''Product'' then
          do {
            ldName \<leftarrow> getMember ld ''name'';
            let d6 = setProp d5 ''title'' (jsOr (getProp d5 ''title'') ldName);
            ldDescription \<leftarrow> getMember ld ''description'';
            let d7 = setProp d6 ''description''
                       (jsOr (getProp d6 ''description'') ldDescription);
            ldOffers \<leftarrow> getMember ld ''offers'';
            (if truthy ldOffers then genericOffer E d7 ldOffers else Some d7)
          }
        else Some d5)
     }"

fun genericLdLoop :: "engine \<Rightarrow> jsobj \<Rightarrow> jsval list \<Rightarrow> jsobj option" where
  "genericLdLoop E d [] = Some d"
| "genericLdLoop E d (ld # lds) =
     (case genericLdStep E d ld of None \<Rightarrow> None | Some d1 \<Rightarrow> genericLdLoop E d1 lds)"

definition genericMetaStage :: "engine \<Rightarrow> string \<Rightarrow> jsobj" where
  \<comment> \<open>\<open>data\<close> after the three assignments from the meta tags\<close>
  "genericMetaStage E html =
     (let m = extractMetaTags E html;
          d1 = setProp [] ''title''
                 (jsOr (metaGet m ''og:title'')
                    (jsOr (metaGet m ''twitter:title'')
                       (jsOr (metaGet m ''title'') (extractPageTitle E html))));
          d2 = setProp d1 ''description''
                 (jsOr (metaGet m ''og:description'')
                    (jsOr (metaGet m ''twitter:description'') (metaGet m ''description'')));
          d3 = setProp d2 ''author''
                 (jsOr (metaGet m ''author'')
                    (jsOr (metaGet m ''article:author'') (metaGet m ''og:article:author'')))
      in d3)"

definition mainContentStage :: "engine \<Rightarrow> string \<Rightarrow> jsobj \<Rightarrow> jsobj" where
  "mainContentStage E html d =
     (case extractMainContent E html of
        Some mainContent \<Rightarrow>
          setProp (setProp d ''mainContent'' (JStr mainContent))
            ''wordCount'' (JNum (Fin (of_nat (countWords False mainContent))))
      | None \<Rightarrow> d)"

definition cleanUpUndefined :: "jsobj \<Rightarrow> jsobj" where
  \<comment> \<open>the loop that deletes every key whose value is \<open>undefined\<close>\<close>
  "cleanUpUndefined d = filter (\<lambda>kv. snd kv \<noteq> JUndefined) d"

definition generic_extract :: "engine \<Rightarrow> string \<Rightarrow> string \<Rightarrow> jsobj option" where
  "generic_extract E html url =
     (case genericLdLoop E (genericMetaStage E html) (extractJsonLd E html) of
        None \<Rightarrow> None
      | Some d \<Rightarrow> Some (cleanUpUndefined (mainContentStage E html d)))"

section \<open>The JSON-LD loop of the eBay extraction routine (recipes/ebay.ts)\<close>

definition conditionMap :: "(string \<times> string) list" where
  "conditionMap =
     [(''NewCondition'', ''New''), (''UsedCondition'', ''Used''),
      (''RefurbishedCondition'', ''Refurbished'')]"

definition ebayCondition :: "engine \<Rightarrow> jsobj \<Rightarrow> jsval \<Rightarrow> jsobj option" where
  \<comment> \<open>the body of \<open>if (offers.itemCondition)\<close>: only a string has the method \<open>match\<close>\<close>
  "ebayCondition E d itemCondition =
     (case itemCondition of
        JStr s \<Rightarrow>
          (case re_exec E Re_condition s of
             Some condMatch \<Rightarrow>
               Some (setProp d ''condition''
                       (JStr (case map_of conditionMap (condMatch 1 @ ''Condition'') of
                                Some c \<Rightarrow> c
                              | None \<Rightarrow> condMatch 1)))
           | None \<Rightarrow> Some d)
      | _ \<Rightarrow> None)"

definition ebayOffer :: "engine \<Rightarrow> jsobj \<Rightarrow> jsval \<Rightarrow> jsobj option" where
  \<comment> \<open>the body of \<open>if (ld.offers)\<close>, for a truthy \<open>ld.offers\<close>\<close>
  "ebayOffer E d ldOffers =
     do {
       let offers = firstIfArray ldOffers;
       price \<leftarrow> getMember offers ''price'';
       p \<leftarrow> parseFloatVal E price;
       let d1 = setProp d ''price'' (JNum p);
       priceCurrency \<leftarrow> getMember offers ''priceCurrency'';
       let d2 = setProp d1 ''currency'' priceCurrency;
       availability \<leftarrow> getMember offers ''availability'';
       d3 \<leftarrow> (if truthy availability
             then do { b \<leftarrow> includesCall availability ''InStock'';
                       Some (setProp d2 ''inStock'' (JBool b)) }
             else Some d2);
       itemCondition \<leftarrow> getMember offers ''itemCondition'';
       (if truthy itemCondition then ebayCondition E d3 itemCondition else Some d3)
     }"

definition ebayLdStep :: "engine \<Rightarrow> jsobj \<Rightarrow> jsval \<Rightarrow> jsobj option" where
  "ebayLdStep E d ld =
     do {
       ty \<leftarrow> getMember ld ''@type'';
       (if ty = JStr ''Product'' then
          do {
            ldName \<leftarrow> getMember ld ''name'';
            let d1 = setProp d ''title'' ldName;
            ldBrand \<leftarrow> getMember ld ''brand'';
            let d2 = setProp d1 ''brand'' (jsOr (optMember ldBrand ''name'') ldBrand);
            ldDescription \<leftarrow> getMember ld ''description'';
            let d3 = setProp d2 ''description'' ldDescription;
            ldImage \<leftarrow> getMember ld ''image'';
            let d4 = setProp d3 ''imageUrl'' (firstIfArray ldImage);
            ldOffers \<leftarrow> getMember ld ''offers'';
            (if truthy ldOffers then ebayOffer E d4 ldOffers else Some d4)
          }
        else Some d)
     }"

fun ebayLdLoop :: "engine \<Rightarrow> jsobj \<Rightarrow> jsval list \<Rightarrow> jsobj option" where
  "ebayLdLoop E d [] = Some d"
| "ebayLdLoop E d (ld # lds) =
     (case ebayLdStep E d ld of None \<Rightarrow> None | Some d1 \<Rightarrow> ebayLdLoop E d1 lds)"

section \<open>Concrete payloads\<close>

text \<open>
  Two JSON-LD objects of type \<open>Product\<close> with different names and brands.
\<close>

definition productA :: jsval where
  "productA = JObj [(''@type'', JStr ''Product''), (''name'', JStr ''A''), (''brand'', JStr ''X'')]"

definition productB :: jsval where
  "productB = JObj [(''@type'', JStr ''Product''), (''name'', JStr ''B''), (''brand'', JStr ''Y'')]"




definition amazonTestRecipe :: "engine \<Rightarrow> recipe" where
  \<comment> \<open>a recipe whose extraction routine is the one of \<open>amazonRecipe\<close>\<close>
  "amazonTestRecipe E = (plainRecipe ''amazon'' (Predicate (\<lambda>u. True))) \<lparr> extractFn := amazonExtractFn E \<rparr>"



section \<open>Properties of the normalization helpers\<close>

lemma parseInt10_cases: "parseInt10 s = NaN \<or> (\<exists>q. parseInt10 s = Fin q)"
  by (auto simp: parseInt10_def Let_def split: prod.splits)

text \<open>
  Claim C3. The claim says that \<open>parsePrice\<close> maps \<open>"$1,234.56"\<close> and \<open>"1,234.56"\<close> to
  1234.56. The code does not: after the characters other than digits, periods and commas
  are removed, \<open>replace(',', '.')\<close> turns the first comma into a period, and \<open>parseFloat\<close>
  stops at the second period of \<open>"1.234.56"\<close>. Both strings give 1.234.
\<close>

theorem parsePrice_thousands_separator:
  "parsePrice (Some ''$1,234.56'') = Some (Fin 1.234)
   \<and> parsePrice (Some ''1,234.56'') = Some (Fin 1.234)
   \<and> parsePrice (Some ''$1,234.56'') \<noteq> Some (Fin 1234.56)
   \<and> parsePrice (Some ''1,234.56'') \<noteq> Some (Fin 1234.56)"
  by code_simp

text \<open>
  Claim C10. When the trimmed, lower-cased input does not end in \<open>k\<close>, \<open>m\<close> or \<open>b\<close>,
  \<open>parseAbbreviatedNumber\<close> deletes every comma, period and white-space character and
  reads the rest with \<open>parseInt(_, 10)\<close>; when no integer is read the result is 0. So
  \<open>"1.5"\<close> gives 15 and \<open>"abc"\<close> gives 0.
\<close>

theorem parseAbbreviatedNumber_plain:
  assumes "\<not> hasMagnitudeSuffix str"
  shows "parseAbbreviatedNumber str =
           (case parseInt10 (plainDigits str) of NaN \<Rightarrow> Fin 0 | n \<Rightarrow> n)"
  using assms parseInt10_cases [of "plainDigits str"]
  by (auto simp: parseAbbreviatedNumber_def hasMagnitudeSuffix_def plainDigits_def Let_def
        numTruthy_def)

theorem parseAbbreviatedNumber_plain_witness:
  "\<not> hasMagnitudeSuffix ''1.5'' \<and> parseAbbreviatedNumber ''1.5'' = Fin 15
   \<and> \<not> hasMagnitudeSuffix ''abc'' \<and> parseAbbreviatedNumber ''abc'' = Fin 0"
proof -
  have a: "\<not> hasMagnitudeSuffix ''1.5''" by code_simp
  have b: "\<not> hasMagnitudeSuffix ''abc''" by code_simp
  have c: "(case parseInt10 (plainDigits ''1.5'') of NaN \<Rightarrow> Fin 0 | n \<Rightarrow> n) = Fin 15"
    by code_simp
  have d: "(case parseInt10 (plainDigits ''abc'') of NaN \<Rightarrow> Fin 0 | n \<Rightarrow> n) = Fin 0"
    by code_simp
  show ?thesis
    using a b c d parseAbbreviatedNumber_plain [OF a] parseAbbreviatedNumber_plain [OF b]
    by simp
qed

text \<open>
  Claim C8, as stated, fails: on the input \<open>"abc"\<close>, in which no integer can be read,
  \<open>parseAbbreviatedNumber\<close> returns the number 0, the very result it gives for \<open>"0"\<close>; no
  absent value is signalled.
\<close>

theorem absent_signal_counterexample:
  "parseInt10 (plainDigits ''abc'') = NaN
   \<and> parseAbbreviatedNumber ''abc'' = Fin 0
   \<and> parseAbbreviatedNumber ''abc'' = parseAbbreviatedNumber ''0''"
  by code_simp

text \<open>
  Claim C8, amended. The helpers are total functions without an error result. On an
  input in which nothing can be read, \<open>parsePrice\<close> returns \<open>undefined\<close> (and it never
  returns \<open>NaN\<close>), \<open>extractDomain\<close> returns the empty string when the URL does not parse,
  and \<open>parseAbbreviatedNumber\<close>, for an input without a \<open>k\<close>, \<open>m\<close> or \<open>b\<close> suffix, returns
  the number 0. Entity decoding and white-space cleaning have no such input.
\<close>

theorem normalization_helpers_absent_value:
  "parsePrice p \<noteq> Some NaN
   \<and> (parseFloat (cleanedPrice s) = NaN \<longrightarrow> parsePrice (Some s) = None)
   \<and> (url_hostname E url = None \<longrightarrow> extractDomain E url = '''')
   \<and> (\<not> hasMagnitudeSuffix str \<and> parseInt10 (plainDigits str) = NaN
        \<longrightarrow> parseAbbreviatedNumber str = Fin 0)"
  by (auto simp: parsePrice_def cleanedPrice_def extractDomain_def Let_def
        parseAbbreviatedNumber_def hasMagnitudeSuffix_def plainDigits_def numTruthy_def
      split: option.splits)

theorem normalization_helpers_absent_value_witness:
  "parseFloat (cleanedPrice ''n/a'') = NaN \<and> parsePrice (Some ''n/a'') = None
   \<and> url_hostname noMatchEngine ''not a url'' = None
   \<and> extractDomain noMatchEngine ''not a url'' = ''''
   \<and> \<not> hasMagnitudeSuffix ''n/a'' \<and> parseInt10 (plainDigits ''n/a'') = NaN
   \<and> parseAbbreviatedNumber ''n/a'' = Fin 0"
proof -
  have a: "parseFloat (cleanedPrice ''n/a'') = NaN" by code_simp
  have b: "url_hostname noMatchEngine ''not a url'' = None" by (simp add: noMatchEngine_def)
  have c: "\<not> hasMagnitudeSuffix ''n/a'' \<and> parseInt10 (plainDigits ''n/a'') = NaN" by code_simp
  show ?thesis
    using a b c
      normalization_helpers_absent_value
        [of "Some ''n/a''" "''n/a''" noMatchEngine "''not a url''" "''n/a''"]
    by simp
qed

section \<open>Dispatch\<close>

lemma getRecipeForUrl_find:
  "getRecipeForUrl recipes g url =
     (case find (\<lambda>r. ownsUrl r url) recipes of Some r \<Rightarrow> r | None \<Rightarrow> g)"
  by (induction recipes) (auto simp: ownsUrl_def split: match.splits)

text \<open>
  Claim C1. \<open>getRecipeForUrl\<close> returns one recipe for every URL: the generic recipe
  when no recipe of the sequence owns the URL, and otherwise the first recipe of the
  sequence whose ownership test (the regex test or the predicate call) accepts it. When
  two recipes both accept the URL, the one registered earlier is returned.
\<close>

theorem getRecipeForUrl_first_owner:
  "((\<forall>r \<in> set recipes. \<not> ownsUrl r url) \<longrightarrow> getRecipeForUrl recipes g url = g)
   \<and> (\<forall>i < length recipes.
         ownsUrl (recipes ! i) url \<and> (\<forall>j < i. \<not> ownsUrl (recipes ! j) url)
         \<longrightarrow> getRecipeForUrl recipes g url = recipes ! i)
   \<and> (\<forall>i < length recipes. \<forall>k < length recipes.
         i < k \<and> ownsUrl (recipes ! i) url \<and> ownsUrl (recipes ! k) url
         \<and> (\<forall>j < i. \<not> ownsUrl (recipes ! j) url)
         \<longrightarrow> getRecipeForUrl recipes g url = recipes ! i)"
proof -
  have none: "getRecipeForUrl recipes g url = g" if "\<forall>r \<in> set recipes. \<not> ownsUrl r url"
  proof -
    from that have "find (\<lambda>r. ownsUrl r url) recipes = None"
      by (simp add: find_None_iff)
    then show ?thesis by (simp add: getRecipeForUrl_find)
  qed
  have first: "getRecipeForUrl recipes g url = recipes ! i"
    if "i < length recipes" "ownsUrl (recipes ! i) url" "\<forall>j < i. \<not> ownsUrl (recipes ! j) url"
    for i
  proof -
    from that have "find (\<lambda>r. ownsUrl r url) recipes = Some (recipes ! i)"
      by (auto simp: find_Some_iff)
    then show ?thesis by (simp add: getRecipeForUrl_find)
  qed
  show ?thesis using none first by blast
qed

theorem getRecipeForUrl_first_owner_witness:
  "ownsUrl shopRecipe ''https://shop.test/item/9''
   \<and> ownsUrl itemRecipe ''https://shop.test/item/9''
   \<and> getRecipeForUrl [shopRecipe, itemRecipe] fallbackRecipe ''https://shop.test/item/9'' = shopRecipe
   \<and> getRecipeForUrl [itemRecipe, shopRecipe] fallbackRecipe ''https://shop.test/item/9'' = itemRecipe
   \<and> \<not> ownsUrl shopRecipe ''https://other.test/''
   \<and> \<not> ownsUrl itemRecipe ''https://other.test/''
   \<and> getRecipeForUrl [shopRecipe, itemRecipe] fallbackRecipe ''https://other.test/'' = fallbackRecipe"
proof -
  have a: "ownsUrl shopRecipe ''https://shop.test/item/9''"
    by (simp add: ownsUrl_def shopRecipe_def plainRecipe_def startsWith_def)
  have b: "ownsUrl itemRecipe ''https://shop.test/item/9''"
    by (simp add: ownsUrl_def itemRecipe_def plainRecipe_def startsWith_def)
  have c: "\<not> ownsUrl shopRecipe ''https://other.test/''"
    by (simp add: ownsUrl_def shopRecipe_def plainRecipe_def startsWith_def)
  have d: "\<not> ownsUrl itemRecipe ''https://other.test/''"
    by (simp add: ownsUrl_def itemRecipe_def plainRecipe_def startsWith_def)
  have e: "getRecipeForUrl [shopRecipe, itemRecipe] fallbackRecipe ''https://shop.test/item/9''
             = [shopRecipe, itemRecipe] ! 0"
    using a b getRecipeForUrl_first_owner
            [of "[shopRecipe, itemRecipe]" "''https://shop.test/item/9''" fallbackRecipe]
    by (auto simp del: getRecipeForUrl.simps)
  have f: "getRecipeForUrl [itemRecipe, shopRecipe] fallbackRecipe ''https://shop.test/item/9''
             = [itemRecipe, shopRecipe] ! 0"
    using a b getRecipeForUrl_first_owner
            [of "[itemRecipe, shopRecipe]" "''https://shop.test/item/9''" fallbackRecipe]
    by (auto simp del: getRecipeForUrl.simps)
  have g: "getRecipeForUrl [shopRecipe, itemRecipe] fallbackRecipe ''https://other.test/''
             = fallbackRecipe"
    using c d getRecipeForUrl_first_owner
            [of "[shopRecipe, itemRecipe]" "''https://other.test/''" fallbackRecipe]
    by (auto simp del: getRecipeForUrl.simps)
  show ?thesis using a b c d e f g by simp
qed

section \<open>Catalog projection\<close>

text \<open>
  Claim C9. \<open>toClientRecipe\<close> fills in the optional attributes: absent tags become the
  empty list, an absent primary flag becomes false (a present one is kept), and absent
  default alerts become the empty list.
\<close>

theorem toClientRecipe_defaults:
  "(tags (meta r) = None \<longrightarrow> client_tags (toClientRecipe r) = [])
   \<and> length (client_fields (toClientRecipe r)) = length (recipeFields r)
   \<and> (\<forall>i < length (recipeFields r).
         client_key (client_fields (toClientRecipe r) ! i) = fst (recipeFields r ! i)
         \<and> (field_primary (snd (recipeFields r ! i)) = None
              \<longrightarrow> client_primary (client_fields (toClientRecipe r) ! i) = False)
         \<and> (\<forall>b. field_primary (snd (recipeFields r ! i)) = Some b
              \<longrightarrow> client_primary (client_fields (toClientRecipe r) ! i) = b))
   \<and> (defaultAlerts r = None \<longrightarrow> client_defaultAlerts (toClientRecipe r) = [])"
  by (auto simp: toClientRecipe_def split: prod.splits)

theorem toClientRecipe_defaults_witness:
  "tags (meta shopRecipe) = None \<and> client_tags (toClientRecipe shopRecipe) = []
   \<and> field_primary (snd (recipeFields shopRecipe ! 0)) = None
   \<and> client_primary (client_fields (toClientRecipe shopRecipe) ! 0) = False
   \<and> defaultAlerts shopRecipe = None \<and> client_defaultAlerts (toClientRecipe shopRecipe) = []"
proof -
  have a: "tags (meta shopRecipe) = None" by (simp add: shopRecipe_def plainRecipe_def)
  have b: "field_primary (snd (recipeFields shopRecipe ! 0)) = None"
    by (simp add: shopRecipe_def plainRecipe_def)
  have c: "defaultAlerts shopRecipe = None" by (simp add: shopRecipe_def plainRecipe_def)
  have d: "0 < length (recipeFields shopRecipe)" by (simp add: shopRecipe_def plainRecipe_def)
  show ?thesis using a b c d toClientRecipe_defaults [of shopRecipe] by blast
qed

section \<open>The validator\<close>

text \<open>
  Claim C6. \<open>testExtractFunction\<close> always returns a result. The result is a failure with
  an error message when the extraction routine throws, when it returns a value that is
  not an object or is \<open>null\<close>, and when some entry of the returned object is \<open>undefined\<close>;
  otherwise it is a success that carries the returned object.
\<close>

theorem testExtractFunction_captures:
  "(\<forall>err. extractFn r html url = Inl err
      \<longrightarrow> \<not> success (testExtractFunction r html url)
          \<and> error (testExtractFunction r html url) \<noteq> None
          \<and> data (testExtractFunction r html url) = None)
   \<and> (\<forall>d. extractFn r html url = Inr d \<and> (\<not> typeofObject d \<or> d = JNull)
      \<longrightarrow> testExtractFunction r html url =
            \<lparr> success = False, data = None, error = Some ''Extract must return an object'' \<rparr>)
   \<and> (\<forall>d. extractFn r html url = Inr d \<and> typeofObject d \<and> d \<noteq> JNull
          \<and> (\<exists>kv \<in> set (objectEntries d). snd kv = JUndefined)
      \<longrightarrow> \<not> success (testExtractFunction r html url)
          \<and> error (testExtractFunction r html url) \<noteq> None
          \<and> data (testExtractFunction r html url) = None)
   \<and> (\<forall>d. extractFn r html url = Inr d \<and> typeofObject d \<and> d \<noteq> JNull
          \<and> (\<forall>kv \<in> set (objectEntries d). snd kv \<noteq> JUndefined)
      \<longrightarrow> testExtractFunction r html url = \<lparr> success = True, data = Some d, error = None \<rparr>)"
proof -
  have found: "P x \<and> x \<in> set xs" if "find P xs = Some x" for P :: "string \<times> jsval \<Rightarrow> bool" and x xs
    using that by (auto simp: find_Some_iff)
  show ?thesis
    by (auto simp: testExtractFunction_def find_None_iff dest: found
          split: option.splits sum.splits)
qed

theorem testExtractFunction_captures_witness:
  "extractFn throwingRecipe '''' ''https://example.com'' = Inl (ThrownError ''Test error'')
   \<and> \<not> success (testExtractFunction throwingRecipe '''' ''https://example.com'')
   \<and> extractFn nullRecipe '''' ''https://example.com'' = Inr JNull
   \<and> \<not> success (testExtractFunction nullRecipe '''' ''https://example.com'')
   \<and> \<not> success (testExtractFunction undefinedFieldRecipe '''' ''https://example.com'')
   \<and> testExtractFunction titleRecipe '''' ''https://example.com''
       = \<lparr> success = True, data = Some (JObj [(''title'', JStr ''T'')]), error = None \<rparr>"
proof -
  have a: "extractFn throwingRecipe '''' ''https://example.com'' = Inl (ThrownError ''Test error'')"
    by (simp add: throwingRecipe_def)
  have b: "extractFn nullRecipe '''' ''https://example.com'' = Inr JNull"
    by (simp add: nullRecipe_def)
  have c: "extractFn undefinedFieldRecipe '''' ''https://example.com''
             = Inr (JObj [(''title'', JStr ''T''), (''price'', JUndefined)])"
    by (simp add: undefinedFieldRecipe_def)
  have c': "typeofObject (JObj [(''title'', JStr ''T''), (''price'', JUndefined)])
            \<and> (\<exists>kv \<in> set (objectEntries (JObj [(''title'', JStr ''T''), (''price'', JUndefined)])).
                  snd kv = JUndefined)"
    by (simp add: typeofObject_def objectEntries_def)
  have d: "extractFn titleRecipe '''' ''https://example.com'' = Inr (JObj [(''title'', JStr ''T'')])"
    by (simp add: titleRecipe_def)
  have d': "typeofObject (JObj [(''title'', JStr ''T'')])
            \<and> (\<forall>kv \<in> set (objectEntries (JObj [(''title'', JStr ''T'')])). snd kv \<noteq> JUndefined)"
    by (simp add: typeofObject_def objectEntries_def)
  have ta: "\<not> success (testExtractFunction throwingRecipe '''' ''https://example.com'')"
    using a testExtractFunction_captures [of throwingRecipe "''''" "''https://example.com''"]
    by simp
  have tb: "\<not> success (testExtractFunction nullRecipe '''' ''https://example.com'')"
    using b testExtractFunction_captures [of nullRecipe "''''" "''https://example.com''"]
    by simp
  have tc: "\<not> success (testExtractFunction undefinedFieldRecipe '''' ''https://example.com'')"
    using c c' testExtractFunction_captures [of undefinedFieldRecipe "''''" "''https://example.com''"]
    by simp
  have td: "testExtractFunction titleRecipe '''' ''https://example.com''
              = \<lparr> success = True, data = Some (JObj [(''title'', JStr ''T'')]), error = None \<rparr>"
    using d d' testExtractFunction_captures [of titleRecipe "''''" "''https://example.com''"]
    by simp
  show ?thesis using a b ta tb tc td by simp
qed

lemma countSlugs_lookup:
  "s \<noteq> [] \<Longrightarrow>
   map_of (countSlugs m rs) s =
     (if count_list (slugsOf rs) s = 0 then map_of m s
      else Some (count_list (slugsOf rs) s
                 + (case map_of m s of None \<Rightarrow> 0 | Some c \<Rightarrow> c)))"
proof (induction rs arbitrary: m)
  case Nil
  then show ?case by (simp add: slugsOf_def)
next
  case (Cons r rs)
  then show ?case by (auto simp: slugsOf_def update_conv' split: option.splits)
qed

text \<open>
  Claim C7, as stated, fails for the empty slug: the loop that counts the slugs skips a
  falsy slug, so two recipes whose slug is the empty string give no duplicate entry. The
  only errors are the two of \<open>validateRecipe\<close>.
\<close>

theorem validateAllRecipes_empty_slug_counterexample:
  "count_list (slugsOf [blankRecipe, blankRecipe]) '''' = 2
   \<and> errors (validateAllRecipes noMatchEngine [blankRecipe, blankRecipe])
     = [\<lparr> err_recipe = ''unknown'', err_field = ''meta.slug'',
           err_message = ''Recipe must have a slug'', err_severity = Error \<rparr>,
        \<lparr> err_recipe = ''unknown'', err_field = ''meta.slug'',
           err_message = ''Recipe must have a slug'', err_severity = Error \<rparr>]"
  by (simp add: slugsOf_def blankRecipe_def validateAllRecipes_def validateRecipe_def
        recipeIssues_def plainRecipe_def issueEntry_def fieldIssues_def VALID_CATEGORIES_def
        Let_def)

text \<open>
  Claim C7, amended. When a non-empty slug occurs \<open>n > 1\<close> times in the list of recipes,
  the result of \<open>validateAllRecipes\<close> has an error entry that names the slug and the
  count \<open>n\<close>, and its valid flag is false.
\<close>

theorem validateAllRecipes_duplicate_slug:
  assumes "s \<noteq> []"
    and "count_list (slugsOf recipes) s = n"
    and "n > 1"
  shows "\<lparr> err_recipe = s, err_field = ''meta.slug'',
           err_message = ''Duplicate slug found '' @ showNat n @ '' times'',
           err_severity = Error \<rparr> \<in> set (errors (validateAllRecipes E recipes))
         \<and> \<not> valid (validateAllRecipes E recipes)"
proof -
  have "map_of (countSlugs [] recipes) s = Some n"
    using assms by (simp add: countSlugs_lookup)
  then have "(s, n) \<in> set (countSlugs [] recipes)"
    by (rule map_of_SomeD)
  then have "(s, n) \<in> set (filter (\<lambda>sc. snd sc > 1) (countSlugs [] recipes))"
    using assms(3) by simp
  then have "duplicateError (s, n)
               \<in> set (map duplicateError (filter (\<lambda>sc. snd sc > 1) (countSlugs [] recipes)))"
    by force
  then have mem: "duplicateError (s, n) \<in> set (errors (validateAllRecipes E recipes))"
    by (simp add: validateAllRecipes_def Let_def)
  then have "errors (validateAllRecipes E recipes) \<noteq> []"
    by auto
  then have "\<not> valid (validateAllRecipes E recipes)"
    by (simp add: validateAllRecipes_def Let_def)
  with mem show ?thesis by (simp add: duplicateError_def)
qed

theorem validateAllRecipes_duplicate_slug_witness:
  "count_list (slugsOf [shopRecipe, itemRecipe, shopRecipe]) ''shop'' = 2
   \<and> \<lparr> err_recipe = ''shop'', err_field = ''meta.slug'',
        err_message = ''Duplicate slug found 2 times'', err_severity = Error \<rparr>
       \<in> set (errors (validateAllRecipes noMatchEngine [shopRecipe, itemRecipe, shopRecipe]))
   \<and> \<not> valid (validateAllRecipes noMatchEngine [shopRecipe, itemRecipe, shopRecipe])"
proof -
  have a: "''shop'' \<noteq> []" by simp
  have b: "count_list (slugsOf [shopRecipe, itemRecipe, shopRecipe]) ''shop'' = 2"
    by (simp add: slugsOf_def shopRecipe_def itemRecipe_def plainRecipe_def)
  have c: "(2::nat) > 1" by simp
  have d: "showNat 2 = ''2''" by code_simp
  show ?thesis
    using b d validateAllRecipes_duplicate_slug [OF a b c, of noMatchEngine] by simp
qed

section \<open>The extraction pipeline\<close>

lemma getProp_setProp:
  "getProp (setProp d k v) k' = (if k' = k then v else getProp d k')"
  by (simp add: getProp_def setProp_def update_conv')

























lemma amazonOffer_keeps:
  assumes "amazonOffer E d offers = Some d'"
  shows "getProp d' ''title'' = getProp d ''title''
         \<and> getProp d' ''description'' = getProp d ''description''"
  using assms
  by (auto simp: amazonOffer_def getProp_setProp Let_def split: Option.bind_splits if_splits)

lemma amazonRating_keeps:
  assumes "amazonRating E d r = Some d'"
  shows "getProp d' ''title'' = getProp d ''title''
         \<and> getProp d' ''description'' = getProp d ''description''"
  using assms
  by (auto simp: amazonRating_def getProp_setProp split: Option.bind_splits)

lemma amazonLdStep_keeps:
  assumes "amazonLdStep E d ld = Some d'"
    and "k = ''title'' \<or> k = ''description''"
    and "truthy (getProp d k)"
  shows "getProp d' k = getProp d k"
  using assms
  by (auto simp: amazonLdStep_def getProp_setProp jsOr_def Let_def
      dest!: amazonOffer_keeps amazonRating_keeps
      split: Option.bind_splits if_splits)

lemma amazonLdLoop_keeps:
  assumes "amazonLdLoop E d lds = Some d'"
    and "k = ''title'' \<or> k = ''description''"
    and "truthy (getProp d k)"
  shows "getProp d' k = getProp d k"
  using assms
proof (induction lds arbitrary: d)
  case Nil
  then show ?case by simp
next
  case (Cons ld lds)
  from Cons.prems(1) obtain d1 where s: "amazonLdStep E d ld = Some d1"
    and l: "amazonLdLoop E d1 lds = Some d'"
    by (auto split: option.splits)
  have e: "getProp d1 k = getProp d k"
    using amazonLdStep_keeps [OF s Cons.prems(2,3)] .
  then have "truthy (getProp d1 k)" using Cons.prems(3) by simp
  then have "getProp d' k = getProp d1 k"
    using Cons.IH [OF l Cons.prems(2)] by simp
  then show ?case using e by simp
qed

lemma ebayCondition_keeps:
  assumes "ebayCondition E d c = Some d'"
  shows "getProp d' ''title'' = getProp d ''title''"
  using assms
  by (auto simp: ebayCondition_def getProp_setProp split: jsval.splits option.splits)

lemma ebayOffer_keeps:
  assumes "ebayOffer E d offers = Some d'"
  shows "getProp d' ''title'' = getProp d ''title''"
  using assms
  by (auto simp: ebayOffer_def getProp_setProp Let_def dest!: ebayCondition_keeps
      split: Option.bind_splits if_splits)

lemma amazonOffer_keeps_brand:
  assumes "amazonOffer E d offers = Some d'"
  shows "getProp d' ''brand'' = getProp d ''brand''
         \<and> getProp d' ''imageUrl'' = getProp d ''imageUrl''"
  using assms
  by (auto simp: amazonOffer_def getProp_setProp Let_def split: Option.bind_splits if_splits)

lemma amazonRating_keeps_brand:
  assumes "amazonRating E d r = Some d'"
  shows "getProp d' ''brand'' = getProp d ''brand''
         \<and> getProp d' ''imageUrl'' = getProp d ''imageUrl''"
  using assms
  by (auto simp: amazonRating_def getProp_setProp split: Option.bind_splits)

lemma amazonLdStep_assigns:
  assumes "amazonLdStep E d (JObj obj) = Some d'"
    and "getProp obj ''@type'' = JStr ''Product''"
  shows "getProp d' ''brand''
           = jsOr (optMember (getProp obj ''brand'') ''name'') (getProp obj ''brand'')
         \<and> getProp d' ''imageUrl''
           = jsOr (optIndex0 (getProp obj ''image'')) (getProp obj ''image'')"
  using assms
  by (auto simp: amazonLdStep_def getMember_def getProp_setProp Let_def
      dest!: amazonOffer_keeps_brand amazonRating_keeps_brand
      split: Option.bind_splits if_splits)

lemma ebayCondition_keeps_more:
  assumes "ebayCondition E d c = Some d'"
  shows "getProp d' ''brand'' = getProp d ''brand''
         \<and> getProp d' ''description'' = getProp d ''description''
         \<and> getProp d' ''imageUrl'' = getProp d ''imageUrl''"
  using assms
  by (auto simp: ebayCondition_def getProp_setProp split: jsval.splits option.splits)

lemma ebayOffer_keeps_more:
  assumes "ebayOffer E d offers = Some d'"
  shows "getProp d' ''brand'' = getProp d ''brand''
         \<and> getProp d' ''description'' = getProp d ''description''
         \<and> getProp d' ''imageUrl'' = getProp d ''imageUrl''"
  using assms
  by (auto simp: ebayOffer_def getProp_setProp Let_def dest!: ebayCondition_keeps_more
      split: Option.bind_splits if_splits)

lemma ebayLdStep_assigns:
  assumes "ebayLdStep E d (JObj obj) = Some d'"
    and "getProp obj ''@type'' = JStr ''Product''"
  shows "getProp d' ''title'' = getProp obj ''name''
         \<and> getProp d' ''brand''
           = jsOr (optMember (getProp obj ''brand'') ''name'') (getProp obj ''brand'')
         \<and> getProp d' ''description'' = getProp obj ''description''
         \<and> getProp d' ''imageUrl'' = firstIfArray (getProp obj ''image'')"
proof -
  have t: "getProp d' ''title'' = getProp obj ''name''"
    using assms
    by (auto simp: ebayLdStep_def getMember_def getProp_setProp Let_def
        dest!: ebayOffer_keeps split: if_splits)
  have r: "getProp d' ''brand''
             = jsOr (optMember (getProp obj ''brand'') ''name'') (getProp obj ''brand'')
           \<and> getProp d' ''description'' = getProp obj ''description''
           \<and> getProp d' ''imageUrl'' = firstIfArray (getProp obj ''image'')"
    using assms
    by (auto simp: ebayLdStep_def getMember_def getProp_setProp Let_def
        dest!: ebayOffer_keeps_more split: if_splits)
  show ?thesis using t r by simp
qed

text \<open>
  The loop over the JSON-LD objects never assigns \<open>asin\<close>, the field of the URL stage.
\<close>

lemma amazonLdStep_keeps_asin:
  assumes "amazonLdStep E d ld = Some d'"
  shows "getProp d' ''asin'' = getProp d ''asin''"
proof -
  have o: "getProp y ''asin'' = getProp x ''asin''" if "amazonOffer E x v = Some y" for x y v
    using that
    by (auto simp: amazonOffer_def getProp_setProp Let_def split: Option.bind_splits if_splits)
  have r: "getProp y ''asin'' = getProp x ''asin''" if "amazonRating E x v = Some y" for x y v
    using that
    by (auto simp: amazonRating_def getProp_setProp split: Option.bind_splits)
  show ?thesis
    using assms
    by (auto simp: amazonLdStep_def getProp_setProp Let_def dest!: o r
        split: Option.bind_splits if_splits)
qed

lemma amazonLdLoop_keeps_asin:
  assumes "amazonLdLoop E d lds = Some d'"
  shows "getProp d' ''asin'' = getProp d ''asin''"
  using assms
proof (induction lds arbitrary: d)
  case Nil
  then show ?case by simp
next
  case (Cons ld lds)
  from Cons.prems obtain d1 where s: "amazonLdStep E d ld = Some d1"
    and l: "amazonLdLoop E d1 lds = Some d'"
    by (auto split: option.splits)
  show ?case
    using amazonLdStep_keeps_asin [OF s] Cons.IH [OF l] by simp
qed

text \<open>
  Claim C5, as stated, fails: in the eBay loop every \<open>Product\<close> object assigns \<open>title\<close> and
  \<open>brand\<close> again, so the second of two objects replaces the values of the first; in the
  Amazon loop the second object replaces the brand of the first (and keeps its title).
\<close>

theorem jsonld_later_object_counterexample:
  "ebayLdLoop noMatchEngine [] [productA]
     = Some [(''title'', JStr ''A''), (''brand'', JStr ''X''), (''description'', JUndefined),
             (''imageUrl'', JUndefined)]
   \<and> ebayLdLoop noMatchEngine [] [productA, productB]
     = Some [(''title'', JStr ''B''), (''brand'', JStr ''Y''), (''description'', JUndefined),
             (''imageUrl'', JUndefined)]
   \<and> amazonLdLoop noMatchEngine [] [productA]
     = Some [(''title'', JStr ''A''), (''description'', JUndefined), (''brand'', JStr ''X''),
             (''imageUrl'', JUndefined)]
   \<and> amazonLdLoop noMatchEngine [] [productA, productB]
     = Some [(''title'', JStr ''A''), (''description'', JUndefined), (''brand'', JStr ''Y''),
             (''imageUrl'', JUndefined)]"
  by code_simp

text \<open>
  Claim C5, amended. In the JSON-LD loop of the Amazon routine, a truthy \<open>title\<close> or
  \<open>description\<close> taken from an earlier object is never replaced by a later object, while
  every \<open>Product\<close> object assigns \<open>brand\<close> and \<open>imageUrl\<close> from its own \<open>brand\<close> and
  \<open>image\<close>. In the JSON-LD loop of the eBay routine every \<open>Product\<close> object assigns
  \<open>title\<close>, \<open>brand\<close>, \<open>description\<close> and \<open>imageUrl\<close> from its own \<open>name\<close>, \<open>brand\<close>,
  \<open>description\<close> and \<open>image\<close>, whatever an earlier object gave.
\<close>

theorem jsonld_later_objects:
  "(amazonLdLoop E d lds = Some d' \<and> truthy (getProp d ''title'')
      \<longrightarrow> getProp d' ''title'' = getProp d ''title'')
   \<and> (amazonLdLoop E d lds = Some d' \<and> truthy (getProp d ''description'')
      \<longrightarrow> getProp d' ''description'' = getProp d ''description'')
   \<and> (amazonLdStep E d (JObj obj) = Some da \<and> getProp obj ''@type'' = JStr ''Product''
      \<longrightarrow> getProp da ''brand''
            = jsOr (optMember (getProp obj ''brand'') ''name'') (getProp obj ''brand'')
          \<and> getProp da ''imageUrl''
            = jsOr (optIndex0 (getProp obj ''image'')) (getProp obj ''image''))
   \<and> (ebayLdStep E d (JObj obj) = Some d'' \<and> getProp obj ''@type'' = JStr ''Product''
      \<longrightarrow> getProp d'' ''title'' = getProp obj ''name''
          \<and> getProp d'' ''brand''
            = jsOr (optMember (getProp obj ''brand'') ''name'') (getProp obj ''brand'')
          \<and> getProp d'' ''description'' = getProp obj ''description''
          \<and> getProp d'' ''imageUrl'' = firstIfArray (getProp obj ''image''))"
  using amazonLdLoop_keeps [of E d lds d' "''title''"]
    amazonLdLoop_keeps [of E d lds d' "''description''"]
    amazonLdStep_assigns [of E d obj da]
    ebayLdStep_assigns [of E d obj d'']
  by blast

theorem jsonld_later_objects_witness:
  "amazonLdLoop noMatchEngine [(''title'', JStr ''A'')] [productB]
     = Some [(''title'', JStr ''A''), (''description'', JUndefined), (''brand'', JStr ''Y''),
             (''imageUrl'', JUndefined)]
   \<and> truthy (getProp [(''title'', JStr ''A'')] ''title'')
   \<and> amazonLdLoop noMatchEngine [(''description'', JStr ''D'')] [productB]
     = Some [(''description'', JStr ''D''), (''title'', JStr ''B''), (''brand'', JStr ''Y''),
             (''imageUrl'', JUndefined)]
   \<and> truthy (getProp [(''description'', JStr ''D'')] ''description'')
   \<and> amazonLdStep noMatchEngine [(''brand'', JStr ''X'')]
        (JObj [(''@type'', JStr ''Product''), (''name'', JStr ''B''), (''brand'', JStr ''Y'')])
     = Some [(''brand'', JStr ''Y''), (''title'', JStr ''B''), (''description'', JUndefined),
             (''imageUrl'', JUndefined)]
   \<and> ebayLdStep noMatchEngine [(''title'', JStr ''A''), (''brand'', JStr ''X'')]
        (JObj [(''@type'', JStr ''Product''), (''name'', JStr ''B''), (''brand'', JStr ''Y'')])
     = Some [(''title'', JStr ''B''), (''brand'', JStr ''Y''), (''description'', JUndefined),
             (''imageUrl'', JUndefined)]
   \<and> getProp [(''@type'', JStr ''Product''), (''name'', JStr ''B''), (''brand'', JStr ''Y'')]
         ''@type'' = JStr ''Product''"
proof -
  let ?dt = "[(''title'', JStr ''A''), (''description'', JUndefined), (''brand'', JStr ''Y''),
              (''imageUrl'', JUndefined)]"
  let ?dd = "[(''description'', JStr ''D''), (''title'', JStr ''B''), (''brand'', JStr ''Y''),
              (''imageUrl'', JUndefined)]"
  let ?da = "[(''brand'', JStr ''Y''), (''title'', JStr ''B''), (''description'', JUndefined),
              (''imageUrl'', JUndefined)]"
  let ?de = "[(''title'', JStr ''B''), (''brand'', JStr ''Y''), (''description'', JUndefined),
              (''imageUrl'', JUndefined)]"
  let ?obj = "[(''@type'', JStr ''Product''), (''name'', JStr ''B''), (''brand'', JStr ''Y'')]"
  have a: "amazonLdLoop noMatchEngine [(''title'', JStr ''A'')] [productB] = Some ?dt"
    by code_simp
  have b: "truthy (getProp [(''title'', JStr ''A'')] ''title'')"
    by (simp add: getProp_def)
  have c: "amazonLdLoop noMatchEngine [(''description'', JStr ''D'')] [productB] = Some ?dd"
    by code_simp
  have d: "truthy (getProp [(''description'', JStr ''D'')] ''description'')"
    by (simp add: getProp_def)
  have e: "ebayLdStep noMatchEngine [(''title'', JStr ''A''), (''brand'', JStr ''X'')] (JObj ?obj)
             = Some ?de"
    by code_simp
  have f: "getProp ?obj ''@type'' = JStr ''Product''"
    by (simp add: getProp_def)
  have s: "amazonLdStep noMatchEngine [(''brand'', JStr ''X'')] (JObj ?obj) = Some ?da"
    by code_simp
  have g: "getProp ?dt ''title'' = getProp [(''title'', JStr ''A'')] ''title''"
    using a b jsonld_later_objects
      [where E = noMatchEngine and d = "[(''title'', JStr ''A'')]" and lds = "[productB]"
         and d' = ?dt]
    by blast
  have h: "getProp ?dd ''description'' = getProp [(''description'', JStr ''D'')] ''description''"
    using c d jsonld_later_objects
      [where E = noMatchEngine and d = "[(''description'', JStr ''D'')]" and lds = "[productB]"
         and d' = ?dd]
    by blast
  have i: "getProp ?da ''brand''
             = jsOr (optMember (getProp ?obj ''brand'') ''name'') (getProp ?obj ''brand'')"
    using s f jsonld_later_objects
      [where E = noMatchEngine and d = "[(''brand'', JStr ''X'')]" and obj = ?obj and da = ?da]
    by blast
  have j: "getProp ?de ''title'' = getProp ?obj ''name''"
    using e f jsonld_later_objects
      [where E = noMatchEngine and d = "[(''title'', JStr ''A''), (''brand'', JStr ''X'')]"
         and obj = ?obj and d'' = ?de]
    by blast
  show ?thesis using a b c d e f s g h i j by simp
qed

text \<open>
  Claim C4. The claim says that no extraction routine returns a map with a key bound to
  \<open>undefined\<close>. The Amazon routine does: it has no clean-up loop, and on a payload
  without any title its meta-tag fallback assigns \<open>undefined\<close> to \<open>data.title\<close>. On the
  empty payload the returned map binds \<open>title\<close> to \<open>undefined\<close>, and
  \<open>testExtractFunction\<close> reports the failure. The generic routine deletes such keys
  before it returns (\<open>generic_extract_defined\<close> below).
\<close>

theorem amazon_undefined_title:
  "amazon_extract noMatchEngine '''' ''https://www.amazon.com/''
     = Some [(''title'', JUndefined), (''isPrime'', JBool False), (''isDeal'', JBool False)]
   \<and> testExtractFunction (amazonTestRecipe noMatchEngine) '''' ''https://www.amazon.com/''
     = \<lparr> success = False, data = None,
         error = Some ''Field title is undefined (should be omitted)'' \<rparr>"
  by code_simp

theorem amazon_undefined_title_witness:
  "(\<exists>d. amazon_extract noMatchEngine '''' ''https://www.amazon.com/'' = Some d
         \<and> map_of d ''title'' = Some JUndefined)
   \<and> success (testExtractFunction (amazonTestRecipe noMatchEngine) '''' ''https://www.amazon.com/'')
       = False"
  using amazon_undefined_title by simp

lemma generic_extract_defined:
  assumes "generic_extract E html url = Some d" "kv \<in> set d"
  shows "snd kv \<noteq> JUndefined"
  using assms by (auto simp: generic_extract_def cleanUpUndefined_def split: option.splits)

end
